theory Spec2Isabelle
  imports Main "HOL-Library.Sublist" "HOL-Library.Word"
begin

section \<open>Python values\<close>

text \<open>
  A Python \<open>str\<close> is a sequence of Unicode code points. It is modelled as a list of
  natural numbers, one per code point; \<open>u\<close> embeds an ASCII literal, and a code point
  above 127 is written as a number (\<open>[243]\<close> is the letter o with an acute accent).
  A \<open>bytes\<close> object is a list of 8-bit words.
\<close>

type_synonym ustr = "nat list"

type_synonym bytes = "8 word list"

definition u :: "string \<Rightarrow> ustr" where
  "u s = map of_char s"

text \<open>\<open>str(n)\<close> for a non-negative integer: its decimal digits.\<close>

fun str_nat :: "nat \<Rightarrow> ustr" where
  "str_nat n = (if n < 10 then [48 + n] else str_nat (n div 10) @ [48 + n mod 10])"

declare str_nat.simps [simp del]

text \<open>\<open>sep.join(xs)\<close>\<close>

fun join :: "ustr \<Rightarrow> ustr list \<Rightarrow> ustr" where
  "join sep [] = []"
| "join sep [x] = x"
| "join sep (x # y # ys) = x @ sep @ join sep (y # ys)"

text \<open>
  An exception is a value: its class, as far as a handler of the program tells classes
  apart, and its message (\<open>str(e)\<close>). Every class here derives from \<open>Exception\<close>;
  \<open>KeyboardInterrupt\<close> and \<open>SystemExit\<close>, which no handler of the program
  catches, are outside the model.
\<close>

datatype exn_class = ValueError | JSONDecodeError | AttributeError | OtherException

datatype exn = Exn (cls: exn_class) (str: ustr)

section \<open>Prompt Builder (the first half of \<open>process_pdf_data\<close>)\<close>

text \<open>
  A chat turn is the dictionary that \<open>main\<close> and \<open>show_main_app\<close> append to the
  history: keys \<open>question\<close> and \<open>answer\<close>, and \<open>is_json_summary\<close> (absent means false).
\<close>

record chat_turn =
  question :: ustr
  answer :: ustr
  is_json_summary :: bool

definition history_header :: ustr where
  \<open>history_header = u ''\<newline>\<newline>Historial de la conversaci'' @ [243] @ u ''n:''\<close>

text \<open>
  The loop \<open>for i, chat in enumerate(chat_history[:-1], 1)\<close>: \<open>i\<close> is the running
  number, \<open>ctx\<close> the accumulated \<open>history_context\<close>.
\<close>

fun history_loop :: "nat \<Rightarrow> chat_turn list \<Rightarrow> ustr \<Rightarrow> ustr" where
  \<open>history_loop i [] ctx = ctx\<close>
| \<open>history_loop i (chat # rest) ctx =
     history_loop (i + 1) rest
       ((ctx @ u ''\<newline>\<newline>Pregunta '' @ str_nat i @ u '': '' @ question chat)
          @ u ''\<newline>Respuesta '' @ str_nat i @ u '': '' @ answer chat)\<close>

text \<open>\<open>chat_history\<close> is \<open>None\<close> by default; \<open>chat_history[:-1]\<close> is \<open>butlast\<close>.\<close>

definition history_context :: "chat_turn list option \<Rightarrow> ustr" where
  \<open>history_context chat_history =
     (case chat_history of
        None \<Rightarrow> []
      | Some h \<Rightarrow>
          if h \<noteq> [] \<and> length h > 1
          then history_loop 1 (butlast h) history_header @ u ''\<newline>\<newline>''
          else [])\<close>

definition base_prompt :: ustr where
  \<open>base_prompt =
     u ''Eres un asistente de inteligencia artificial especializado en '' @
     u ''licitaciones espa'' @ [241] @ u ''olas y tus usuarios son empresas espa'' @
     [241] @ u ''olas que buscan aplicar a licitaciones.\<newline>        Los '' @
     u ''documentos que te proporcionar'' @ [233] @
     u '' son documentos de licitaciones espa'' @ [241] @
     u ''olas.\<newline>        Debes responder teniendo en cuenta este '' @
     u ''contexto, evitando responder preguntas no relacionadas.\<newline> '' @
     u ''       Es relevante obtener un resumen de la licitaci'' @ [243] @
     u ''n que incluya el precio de la licitaci'' @ [243] @ u ''n, requisitos t'' @
     [233] @ u ''cnicos y administrativos, potencialidad, f'' @ [243] @
     u ''rmulas de relevancia con propuestas de valores y resumen de '' @
     u ''posibles problemas o ventajas para la empresa que '' @
     u ''aplica.\<newline>        Es tambi'' @ [233] @
     u ''n relevante proporcionar recomendaci'' @ [243] @ u ''n sobre si aplicar o no.''\<close>

definition build_prompt :: "ustr \<Rightarrow> chat_turn list option \<Rightarrow> ustr" where
  \<open>build_prompt prompt_text chat_history =
     base_prompt @ u ''\<newline>\<newline>'' @ history_context chat_history
       @ u ''\<newline>\<newline>Pregunta: '' @ prompt_text\<close>

section \<open>The world outside the program\<close>

text \<open>
  The program talks to a file system, an HTTP server, a model API, a log and the user
  interface. What it does to them is recorded in the \<open>world\<close>; what they answer is
  given by an environment \<open>env\<close> of oracles, one answer for each call the program makes
  (the \<open>nat\<close> argument is the position of the source in the batch). Every run of the
  program is the model's run under some environment.

  \<open>st.spinner\<close> only draws a progress indicator and is left out.
\<close>

record uploaded_file =
  name :: ustr
  getvalue :: bytes

datatype source = UploadedFile uploaded_file | UrlReference ustr

datatype source_type = File | Url

text \<open>One constructor for each \<open>logging.error\<close> call of the program.\<close>

datatype log_entry =
    ErrorDeletingTemporaryFile exn
  | ErrorProcessingURL source exn
  | ErrorProcessingSource source exn
  | ErrorInGeminiAPICall exn
  | ErrorParsingJSON exn

record world =
  files :: "ustr \<rightharpoonup> bytes"  \<comment> \<open>the file system: path to content\<close>
  errors :: "log_entry list"  \<comment> \<open>\<open>logging.error\<close>, oldest first\<close>
  st_errors :: "source list"  \<comment> \<open>sources reported by \<open>st.error\<close>\<close>
  fetched :: "ustr list"  \<comment> \<open>URLs passed to \<open>httpx.get\<close>\<close>
  asked :: "(bytes \<times> ustr) list"  \<comment> \<open>documents and prompts sent to the model\<close>
  loads_calls :: "ustr list"  \<comment> \<open>texts passed to \<open>json.loads\<close>\<close>

record http_response =
  status_code :: nat
  content :: bytes

text \<open>Of the six components of \<open>urlparse\<close>'s result the program reads two.\<close>

record parse_result =
  scheme :: ustr
  netloc :: ustr

record env =
  named_temporary_file :: "nat \<Rightarrow> exn + ustr"
    \<comment> \<open>\<open>tempfile.NamedTemporaryFile(delete=False, suffix='.pdf')\<close>: the new file's name\<close>
  tmp_write :: "nat \<Rightarrow> exn option"
    \<comment> \<open>\<open>tmp_file.write(source.getvalue())\<close> and closing the file: an exception, if any\<close>
  open_read :: "nat \<Rightarrow> exn option"
    \<comment> \<open>\<open>open(tmp_file_path, 'rb')\<close> and \<open>f.read()\<close>: an exception, if any\<close>
  os_unlink :: "nat \<Rightarrow> exn option"
    \<comment> \<open>\<open>os.unlink(tmp_file_path)\<close>: an exception, if the system refuses\<close>
  httpx_get :: "nat \<Rightarrow> ustr \<Rightarrow> exn + http_response"
  raise_for_status :: "http_response \<Rightarrow> exn option"
  urlparse :: "ustr \<Rightarrow> ustr + parse_result"
    \<comment> \<open>\<open>Inl m\<close>: raises \<open>ValueError(m)\<close>, the one exception \<open>urlparse\<close> raises on a \<open>str\<close>\<close>
  generate_content :: "source_type \<Rightarrow> nat \<Rightarrow> bytes \<Rightarrow> ustr \<Rightarrow> exn + ustr option"
    \<comment> \<open>\<open>client.models.generate_content(...)\<close>, then \<open>response.text\<close> (which may be \<open>None\<close>)\<close>

section \<open>Model Client (the second half of \<open>process_pdf_data\<close>)\<close>

definition process_pdf_data ::
  "(bytes \<Rightarrow> ustr \<Rightarrow> exn + ustr option) \<Rightarrow> bytes \<Rightarrow> ustr \<Rightarrow> ustr \<Rightarrow> chat_turn list option
     \<Rightarrow> world \<Rightarrow> ustr option \<times> world" where
  "process_pdf_data gen pdf_data prompt_text source_name chat_history w =
     (let prompt = build_prompt prompt_text chat_history;
          w1 = w\<lparr>asked := asked w @ [(pdf_data, prompt)]\<rparr>
      in case gen pdf_data prompt of
           Inl e \<Rightarrow> (None, w1\<lparr>errors := errors w1 @ [ErrorInGeminiAPICall e]\<rparr>)
         | Inr text \<Rightarrow>
             (case text of
                None \<Rightarrow> (None, w1)
              | Some t \<Rightarrow> (if t \<noteq> [] then Some t else None, w1)))"

section \<open>Document Fetcher and Response Aggregator (\<open>process_pdf_with_gemini\<close>)\<close>

record response_entry =
  filename :: ustr
  response :: ustr

text \<open>\<open>if response_text: responses.append({...})\<close>\<close>

definition append_response :: "ustr \<Rightarrow> ustr option \<Rightarrow> response_entry list \<Rightarrow> response_entry list" where
  "append_response fname response_text responses =
     (case response_text of
        None \<Rightarrow> responses
      | Some t \<Rightarrow> responses @ [\<lparr>filename = fname, response = t\<rparr>])"

text \<open>
  \<open>os.unlink\<close>: the system may refuse; a path that does not exist is an error
  (\<open>FileNotFoundError\<close>); otherwise the file is gone.
\<close>

definition unlink :: "env \<Rightarrow> nat \<Rightarrow> ustr \<Rightarrow> world \<Rightarrow> exn + world" where
  "unlink E k path w =
     (case os_unlink E k of
        Some e \<Rightarrow> Inl e
      | None \<Rightarrow>
          (case files w path of
             None \<Rightarrow> Inl (Exn OtherException (u ''FileNotFoundError''))
           | Some _ \<Rightarrow> Inr (w\<lparr>files := (files w)(path := None)\<rparr>)))"

text \<open>The \<open>finally\<close> block: \<open>try: os.unlink(tmp_file_path) except Exception as e: logging.error(...)\<close>\<close>

definition cleanup :: "env \<Rightarrow> nat \<Rightarrow> ustr \<Rightarrow> world \<Rightarrow> world" where
  "cleanup E k tmp_file_path w =
     (case unlink E k tmp_file_path w of
        Inl e \<Rightarrow> w\<lparr>errors := errors w @ [ErrorDeletingTemporaryFile e]\<rparr>
      | Inr w' \<Rightarrow> w')"

text \<open>
  The body of the inner \<open>try\<close>: read the temporary file back, ask the model, append the
  answer. The first component of the result is the exception that leaves the block, if any.
\<close>

definition read_and_ask ::
  "env \<Rightarrow> ustr \<Rightarrow> chat_turn list option \<Rightarrow> nat \<Rightarrow> uploaded_file \<Rightarrow> ustr
     \<Rightarrow> response_entry list \<Rightarrow> world \<Rightarrow> exn option \<times> response_entry list \<times> world" where
  "read_and_ask E prompt_text chat_history k src tmp_file_path responses w =
     (case open_read E k of
        Some e \<Rightarrow> (Some e, responses, w)
      | None \<Rightarrow>
          (case files w tmp_file_path of
             None \<Rightarrow> (Some (Exn OtherException (u ''FileNotFoundError'')), responses, w)
           | Some pdf_data \<Rightarrow>
               (let (response_text, w') =
                      process_pdf_data (generate_content E File k) pdf_data prompt_text
                        (name src) chat_history w
                in (None, append_response (name src) response_text responses, w'))))"

text \<open>
  The file branch for one source: create and fill the temporary file (the \<open>with\<close>
  block), then \<open>try: ... finally: ...\<close>. An exception in the \<open>with\<close> block leaves
  before the \<open>try\<close> is entered; the file was created with \<open>delete=False\<close>.
\<close>

definition file_source ::
  "env \<Rightarrow> ustr \<Rightarrow> chat_turn list option \<Rightarrow> nat \<Rightarrow> uploaded_file
     \<Rightarrow> response_entry list \<Rightarrow> world \<Rightarrow> exn option \<times> response_entry list \<times> world" where
  "file_source E prompt_text chat_history k src responses w =
     (case named_temporary_file E k of
        Inl e \<Rightarrow> (Some e, responses, w)
      | Inr tmp_file_path \<Rightarrow>
          (let w1 = w\<lparr>files := (files w)(tmp_file_path \<mapsto> [])\<rparr>
           in case tmp_write E k of
                Some e \<Rightarrow> (Some e, responses, w1)
              | None \<Rightarrow>
                  (let w2 = w1\<lparr>files := (files w1)(tmp_file_path \<mapsto> getvalue src)\<rparr>;
                       (raised, responses', w3) =
                          read_and_ask E prompt_text chat_history k src tmp_file_path responses w2
                   in (raised, responses', cleanup E k tmp_file_path w3))))"

text \<open>The handler of the URL branch: \<open>logging.error(...)\<close>, \<open>st.error(...)\<close>.\<close>

definition url_failed :: "source \<Rightarrow> exn \<Rightarrow> world \<Rightarrow> world" where
  "url_failed src e w =
     w\<lparr>errors := errors w @ [ErrorProcessingURL src e], st_errors := st_errors w @ [src]\<rparr>"

text \<open>The URL branch for one source; its own handler catches every exception.\<close>

definition url_source ::
  "env \<Rightarrow> ustr \<Rightarrow> chat_turn list option \<Rightarrow> nat \<Rightarrow> ustr
     \<Rightarrow> response_entry list \<Rightarrow> world \<Rightarrow> exn option \<times> response_entry list \<times> world" where
  \<open>url_source E prompt_text chat_history k url responses w =
     (let w0 = w\<lparr>fetched := fetched w @ [url]\<rparr>
      in case httpx_get E k url of
           Inl e \<Rightarrow> (None, responses, url_failed (UrlReference url) e w0)
         | Inr resp \<Rightarrow>
             (case raise_for_status E resp of
                Some e \<Rightarrow> (None, responses, url_failed (UrlReference url) e w0)
              | None \<Rightarrow>
                  if status_code resp = 200
                  then (case urlparse E url of
                          Inl m \<Rightarrow> (None, responses, url_failed (UrlReference url) (Exn ValueError m) w0)
                        | Inr r \<Rightarrow>
                            (let fname = u ''PDF_from_'' @ netloc r @ u ''.pdf'';
                                 (response_text, w') =
                                    process_pdf_data (generate_content E Url k) (content resp)
                                      prompt_text fname chat_history w0
                             in (None, append_response fname response_text responses, w')))
                  else (None, responses, w0)))\<close>

text \<open>
  One iteration of \<open>for source in sources\<close>, before the handler. A source of the wrong
  kind for the \<open>source_type\<close> fails as Python does: a string has no attribute \<open>name\<close>,
  and \<open>httpx.get\<close> rejects an object that is not a URL.
\<close>

fun one_source ::
  "env \<Rightarrow> ustr \<Rightarrow> source_type \<Rightarrow> chat_turn list option \<Rightarrow> nat \<Rightarrow> source
     \<Rightarrow> response_entry list \<Rightarrow> world \<Rightarrow> exn option \<times> response_entry list \<times> world" where
  \<open>one_source E prompt_text File chat_history k (UploadedFile f) responses w =
     file_source E prompt_text chat_history k f responses w\<close>
| \<open>one_source E prompt_text File chat_history k (UrlReference s) responses w =
     (Some (Exn AttributeError (u ''name'')), responses, w)\<close>
| \<open>one_source E prompt_text Url chat_history k (UrlReference s) responses w =
     url_source E prompt_text chat_history k s responses w\<close>
| \<open>one_source E prompt_text Url chat_history k (UploadedFile f) responses w =
     (None, responses, url_failed (UploadedFile f) (Exn OtherException (u ''TypeError'')) w)\<close>

text \<open>
  The loop with its handler \<open>except Exception as e: logging.error(...); continue\<close>.
\<close>

fun sources_loop ::
  "env \<Rightarrow> ustr \<Rightarrow> source_type \<Rightarrow> chat_turn list option \<Rightarrow> nat \<Rightarrow> source list
     \<Rightarrow> response_entry list \<Rightarrow> world \<Rightarrow> response_entry list \<times> world" where
  "sources_loop E prompt_text st chat_history k [] responses w = (responses, w)"
| "sources_loop E prompt_text st chat_history k (src # rest) responses w =
     (case one_source E prompt_text st chat_history k src responses w of
        (None, responses', w') \<Rightarrow>
          sources_loop E prompt_text st chat_history (k + 1) rest responses' w'
      | (Some e, responses', w') \<Rightarrow>
          sources_loop E prompt_text st chat_history (k + 1) rest responses'
            (w'\<lparr>errors := errors w' @ [ErrorProcessingSource src e]\<rparr>))"

text \<open>
  The outermost handler (\<open>return None\<close>) is reached only when the loop's own handler
  or the iteration over \<open>sources\<close> raises; neither does on a list, so the function
  returns \<open>responses\<close>.
\<close>

definition process_pdf_with_gemini ::
  "env \<Rightarrow> source list \<Rightarrow> ustr \<Rightarrow> source_type \<Rightarrow> chat_turn list option \<Rightarrow> world
     \<Rightarrow> response_entry list \<times> world" where
  "process_pdf_with_gemini E sources prompt_text st chat_history w =
     sources_loop E prompt_text st chat_history 0 sources [] w"

section \<open>Validator\<close>

text \<open>
  \<open>all([result.scheme, result.netloc])\<close>: a string is true when it is not empty.
\<close>

definition is_valid_url :: "env \<Rightarrow> ustr \<Rightarrow> bool" where
  "is_valid_url E url =
     (case urlparse E url of
        Inl _ \<Rightarrow> False
      | Inr result \<Rightarrow> list_all (\<lambda>s. s \<noteq> []) [scheme result, netloc result])"

text \<open>
  \<open>url.lower().endswith(('.pdf', '.PDF'))\<close>. Only the end of the lowered string matters,
  and the only code points whose lower case is one of \<open>.\<close>, \<open>p\<close>, \<open>d\<close>, \<open>f\<close> are these
  and \<open>P\<close>, \<open>D\<close>, \<open>F\<close>; the second suffix can never match a lowered string.
\<close>

definition lower_ascii :: "nat \<Rightarrow> nat" where
  "lower_ascii c = (if 65 \<le> c \<and> c \<le> 90 then c + 32 else c)"



text \<open>
  \<open>str.strip()\<close> removes the code points for which \<open>str.isspace\<close> holds from both ends.
\<close>

definition isspace :: "nat \<Rightarrow> bool" where
  "isspace c \<longleftrightarrow>
     (9 \<le> c \<and> c \<le> 13) \<or> (28 \<le> c \<and> c \<le> 32) \<or> c = 133 \<or> c = 160 \<or> c = 5760
       \<or> (8192 \<le> c \<and> c \<le> 8202) \<or> c = 8232 \<or> c = 8233 \<or> c = 8239 \<or> c = 8287 \<or> c = 12288"

definition strip :: "ustr \<Rightarrow> ustr" where
  "strip s = rev (dropWhile isspace (rev (dropWhile isspace s)))"

section \<open>Response Aggregator (\<open>get_gemini_response\<close>)\<close>

text \<open>
  \<open>[url.strip() for url in url_docs if url.strip() and is_valid_url(url.strip())]\<close>;
  the further condition \<open>and is_pdf_url(url.strip())\<close> is commented out in the source.
\<close>

definition valid_urls :: "env \<Rightarrow> ustr list \<Rightarrow> ustr list" where
  "valid_urls E url_docs =
     map strip (filter (\<lambda>url. strip url \<noteq> [] \<and> is_valid_url E (strip url)) url_docs)"

definition no_documents :: ustr where
  \<open>no_documents =
     u ''Error: No se proporcionaron documentos. Por favor, sube un archivo PDF o '' @
     u ''proporciona una URL de PDF.''\<close>

definition format_response :: "response_entry \<Rightarrow> ustr" where
  \<open>format_response resp = u ''**'' @ filename resp @ u ''**\<newline>'' @ response resp\<close>

definition separator :: ustr where
  \<open>separator = u ''\<newline>\<newline>---\<newline>\<newline>''\<close>

text \<open>The first block: \<open>if file_docs: ...; if file_responses: all_responses.extend(...)\<close>\<close>

definition file_stage ::
  "env \<Rightarrow> ustr \<Rightarrow> uploaded_file list option \<Rightarrow> chat_turn list option
     \<Rightarrow> response_entry list \<Rightarrow> world \<Rightarrow> response_entry list \<times> world" where
  "file_stage E prompt_text file_docs chat_history all_responses w =
     (case file_docs of
        None \<Rightarrow> (all_responses, w)
      | Some docs \<Rightarrow>
          if docs \<noteq> []
          then (let (file_responses, w') =
                      process_pdf_with_gemini E (map UploadedFile docs) prompt_text File chat_history w
                in (if file_responses \<noteq> [] then all_responses @ file_responses else all_responses, w'))
          else (all_responses, w))"

text \<open>The second block: \<open>if url_docs: ...; if valid_urls: ...; if url_responses: ...\<close>\<close>

definition url_stage ::
  "env \<Rightarrow> ustr \<Rightarrow> ustr list option \<Rightarrow> chat_turn list option
     \<Rightarrow> response_entry list \<Rightarrow> world \<Rightarrow> response_entry list \<times> world" where
  "url_stage E prompt_text url_docs chat_history all_responses w =
     (case url_docs of
        None \<Rightarrow> (all_responses, w)
      | Some docs \<Rightarrow>
          if docs \<noteq> []
          then (let vs = valid_urls E docs
                in if vs \<noteq> []
                   then (let (url_responses, w') =
                               process_pdf_with_gemini E (map UrlReference vs) prompt_text Url chat_history w
                         in (if url_responses \<noteq> [] then all_responses @ url_responses
                             else all_responses, w'))
                   else (all_responses, w))
          else (all_responses, w))"

definition get_gemini_response ::
  "env \<Rightarrow> ustr \<Rightarrow> uploaded_file list option \<Rightarrow> ustr list option \<Rightarrow> chat_turn list option
     \<Rightarrow> world \<Rightarrow> ustr \<times> world" where
  "get_gemini_response E prompt_text file_docs url_docs chat_history w =
     (let (all_responses, w1) = file_stage E prompt_text file_docs chat_history [] w;
          (all_responses, w2) = url_stage E prompt_text url_docs chat_history all_responses w1
      in if all_responses = [] then (no_documents, w2)
         else (join separator (map format_response all_responses), w2))"

section \<open>Predefined questions\<close>

definition resumen_del_documento :: ustr where
  \<open>resumen_del_documento =
     u ''Por favor, proporciona un resumen detallado de los puntos clave '' @
     u ''de este documento, incluyendo los temas principales, hallazgos '' @
     u ''importantes y conclusiones relevantes. Incluye ejemplos espec'' @ [237] @
     u ''ficos cuando sea posible.''\<close>

definition tema_principal :: ustr where
  \<open>tema_principal =
     u ''Analiza cuidadosamente este documento y describe en detalle cu'' @ [225] @
     u ''l es su tema principal. Explica por qu'' @ [233] @
     u '' es importante este tema y c'' @ [243] @
     u ''mo se desarrolla a lo largo del texto. Incluye subtemas o '' @
     u ''aspectos clave que apoyen el tema principal.''\<close>

definition hallazgos_principales :: ustr where
  \<open>hallazgos_principales =
     u ''Identifica y enumera los hallazgos o conclusiones principales '' @
     u ''presentados en este documento. Para cada hallazgo, proporciona el '' @
     u ''contexto necesario y explica su relevancia. Si es posible, '' @
     u ''incluye datos o estad'' @ [237] @ u ''sticas espec'' @ [237] @
     u ''ficas que respalden estos hallazgos.''\<close>

definition argumentos_clave :: ustr where
  \<open>argumentos_clave =
     u ''Analiza y describe en detalle los argumentos principales '' @
     u ''presentados en este documento. Explica la l'' @ [243] @ u ''gica detr'' @
     [225] @ u ''s de cada argumento, las pruebas presentadas y c'' @ [243] @
     u ''mo se relacionan entre s'' @ [237] @ u ''. Eval'' @ [250] @
     u ''a la solidez de estos argumentos si es posible.''\<close>

definition fechas_importantes :: ustr where
  \<open>fechas_importantes =
     u ''Extrae y enumera todas las fechas, plazos o hitos importantes '' @
     u ''mencionados en este documento. Para cada uno, proporciona el '' @
     u ''contexto relevante, incluyendo qu'' @ [233] @ u '' evento o acci'' @ [243] @
     u ''n est'' @ [225] @
     u '' programada y cualquier consecuencia o requisito asociado.''\<close>

definition metodologia :: ustr where
  \<open>metodologia =
     u ''Describe en detalle la metodolog'' @ [237] @
     u ''a utilizada en este documento. Explica los m'' @ [233] @
     u ''todos de investigaci'' @ [243] @ u ''n, herramientas, t'' @ [233] @
     u ''cnicas o enfoques empleados, as'' @ [237] @ u '' como la justificaci'' @
     [243] @ u ''n para su uso. Incluye cualquier limitaci'' @ [243] @
     u ''n o consideraci'' @ [243] @ u ''n especial mencionada.''\<close>

definition recomendaciones :: ustr where
  \<open>recomendaciones =
     u ''Identifica y describe todas las recomendaciones o elementos de '' @
     u ''acci'' @ [243] @
     u ''n propuestos en este documento. Para cada uno, explica su prop'' @ [243] @
     u ''sito, a qui'' @ [233] @ u ''n est'' @ [225] @ u '' dirigido y qu'' @ [233] @
     u '' resultados se esperan lograr. Incluye cualquier marco de tiempo '' @
     u ''o recurso mencionado.''\<close>

definition limitaciones :: ustr where
  \<open>limitaciones =
     u ''Detalla las limitaciones o restricciones mencionadas en este '' @
     u ''documento. Explica c'' @ [243] @ u ''mo estas limitaciones podr'' @ [237] @
     u ''an afectar los hallazgos o conclusiones presentadas. Si se '' @
     u ''mencionan formas de mitigar estas limitaciones, incl'' @ [250] @
     u ''yelas tambi'' @ [233] @ u ''n.''\<close>

definition datos_y_estadisticas :: ustr where
  \<open>datos_y_estadisticas =
     u ''Extrae y resume los datos, estad'' @ [237] @
     u ''sticas o cifras clave mencionadas en este documento. Para cada '' @
     u ''dato, proporciona el contexto, la fuente si est'' @ [225] @
     u '' disponible y su relevancia para los hallazgos o conclusiones del '' @
     u ''documento.''\<close>

definition estructura_del_documento :: ustr where
  \<open>estructura_del_documento =
     u ''Describe la estructura y organizaci'' @ [243] @
     u ''n de este documento. Identifica las secciones principales, su prop'' @ [243] @
     u ''sito y c'' @ [243] @ u ''mo se relacionan entre s'' @ [237] @
     u ''. Explica c'' @ [243] @
     u ''mo esta estructura ayuda a presentar la informaci'' @ [243] @
     u ''n de manera efectiva.''\<close>

definition resumen_de_licitacion_json :: ustr where
  \<open>resumen_de_licitacion_json =
     u ''Analiza este documento de licitaci'' @ [243] @
     u ''n y devuelve un JSON con la siguiente estructura en formato '' @
     u ''Markdown:\<newline>\<newline>```json\<newline>{\<newline>  '' @
     u ''"porcentaje_recomendacion": "X%",\<newline>  '' @
     u ''"porcentaje_recomendacion_short_explain": "Breve explicaci'' @ [243] @
     u ''n de 1-2 frases sobre el porcentaje de recomendaci'' @ [243] @
     u ''n",\<newline>  "objeto_contrato": "Descripci'' @ [243] @
     u ''n detallada del objeto del contrato",\<newline>  "presupuesto": '' @
     u ''"Presupuesto Base de Licitaci'' @ [243] @
     u ''n (sin IVA)",\<newline>  "solvencia_requerida": "Niveles de '' @
     u ''solvencia t'' @ [233] @ u ''cnica y econ'' @ [243] @
     u ''mica requeridos",\<newline>  "habilitaciones_necesarias": "Lista '' @
     u ''de habilitaciones, certificaciones o requisitos '' @
     u ''necesarios",\<newline>  "garantias": "Detalles sobre las garant'' @ [237] @
     u ''as requeridas (provisionales, definitivas, etc.)",\<newline>  '' @
     u ''"ecuaciones": "F'' @ [243] @ u ''rmulas o criterios de valoraci'' @ [243] @
     u ''n si los hay",\<newline>  "otras_condiciones": "Otras condiciones '' @
     u ''relevantes de la licitaci'' @ [243] @
     u ''n",\<newline>  "recomendacion": "An'' @ [225] @
     u ''lisis detallado y recomendaci'' @ [243] @ u ''n sobre la conveniencia de '' @
     u ''participar"\<newline>}\<newline>```\<newline>\<newline>Por favor, '' @
     u ''completa cada campo con la informaci'' @ [243] @ u ''n relevante extra'' @
     [237] @ u ''da del documento. Si alg'' @ [250] @ u ''n dato no est'' @ [225] @
     u '' disponible, ind'' @ [237] @
     u ''calo como No especificado. El campo `porcentaje_recomendacion` '' @
     u ''debe ser un porcentaje (ej: "75%") y '' @
     u ''`porcentaje_recomendacion_short_explain` debe ser una explicaci'' @ [243] @
     u ''n concisa de 1-2 frases. Todos los valores de este JSON ser'' @ [225] @
     u ''n strings que siguen el formato markdown.''\<close>

text \<open>
  \<open>PREDEFINED_QUESTIONS\<close>: a dictionary literal, kept as the list of its items in
  insertion order (which \<open>QUESTION_OPTIONS\<close> depends on).
\<close>

definition PREDEFINED_QUESTIONS :: "(ustr \<times> ustr) list" where
  \<open>PREDEFINED_QUESTIONS =
     [
      ([],
       []),
      (u ''Resumen del documento'',
       resumen_del_documento),
      (u ''Tema principal'',
       tema_principal),
      (u ''Hallazgos principales'',
       hallazgos_principales),
      (u ''Argumentos clave'',
       argumentos_clave),
      (u ''Fechas importantes'',
       fechas_importantes),
      (u ''Metodolog'' @ [237] @ u ''a'',
       metodologia),
      (u ''Recomendaciones'',
       recomendaciones),
      (u ''Limitaciones'',
       limitaciones),
      (u ''Datos y estad'' @ [237] @ u ''sticas'',
       datos_y_estadisticas),
      (u ''Estructura del documento'',
       estructura_del_documento),
      (u ''Resumen de licitaci'' @ [243] @ u ''n (JSON)'',
       resumen_de_licitacion_json)
     ]\<close>

text \<open>\<open>[""] + list(PREDEFINED_QUESTIONS.keys())[1:]\<close>\<close>

definition QUESTION_OPTIONS :: "ustr list" where
  "QUESTION_OPTIONS = [[]] @ drop 1 (map fst PREDEFINED_QUESTIONS)"

section \<open>JSON Extractor (\<open>extract_json_from_markdown\<close>)\<close>

text \<open>
  \<open>re.search(r'```json\n(.*?)\n```', text, re.DOTALL)\<close>, by the semantics of the
  pattern. With \<open>re.DOTALL\<close> the dot matches every code point, so the lazy group
  \<open>(.*?)\<close> followed by the closing fence takes the shortest text after which the
  closing fence stands; \<open>re.search\<close> tries the pattern at each position from the left
  and returns the first match. The result is \<open>group(1)\<close>.
\<close>

definition fence_open :: ustr where
  \<open>fence_open = u ''```json\<newline>''\<close>

definition fence_close :: ustr where
  \<open>fence_close = u ''\<newline>```''\<close>

fun lazy_group :: "ustr \<Rightarrow> ustr option" where
  "lazy_group [] = None"
| "lazy_group (c # cs) =
     (if prefix fence_close (c # cs) then Some [] else map_option ((#) c) (lazy_group cs))"

definition match_here :: "ustr \<Rightarrow> ustr option" where
  "match_here text =
     (if prefix fence_open text then lazy_group (drop (length fence_open) text) else None)"

fun re_search :: "ustr \<Rightarrow> ustr option" where
  "re_search [] = None"
| "re_search (c # cs) =
     (case match_here (c # cs) of Some g \<Rightarrow> Some g | None \<Rightarrow> re_search cs)"

text \<open>
  A call of \<open>json.loads\<close> inside the \<open>try\<close>: the handler
  \<open>except (json.JSONDecodeError, AttributeError)\<close> logs and returns \<open>None\<close>; an
  exception of another class leaves the function. \<open>loads\<close> stands for \<open>json.loads\<close>;
  its results are of any type \<open>'j\<close>.
\<close>

definition try_loads :: "(ustr \<Rightarrow> exn + 'j) \<Rightarrow> ustr \<Rightarrow> world \<Rightarrow> (exn + 'j option) \<times> world" where
  "try_loads loads s w =
     (let w1 = w\<lparr>loads_calls := loads_calls w @ [s]\<rparr>
      in case loads s of
           Inr v \<Rightarrow> (Inr (Some v), w1)
         | Inl e \<Rightarrow>
             if cls e = JSONDecodeError \<or> cls e = AttributeError
             then (Inr None, w1\<lparr>errors := errors w1 @ [ErrorParsingJSON e]\<rparr>)
             else (Inl e, w1))"

definition extract_json_from_markdown ::
  "(ustr \<Rightarrow> exn + 'j) \<Rightarrow> ustr \<Rightarrow> world \<Rightarrow> (exn + 'j option) \<times> world" where
  "extract_json_from_markdown loads text w =
     (case re_search text of
        Some json_str \<Rightarrow> try_loads loads json_str w
      | None \<Rightarrow> try_loads loads text w)"

section \<open>Reference models of the libraries\<close>

text \<open>
  The theorems below hold for every environment. To run the program on concrete inputs
  the oracles \<open>json.loads\<close> and \<open>urlparse\<close> are given reference models, each exact on a
  stated fragment of its inputs.
\<close>

subsection \<open>\<open>json.loads\<close>\<close>

text \<open>
  JSON values; an object is the list of its items in insertion order, as a Python
  \<open>dict\<close> is. The decoder is exact (the same value, or a \<open>JSONDecodeError\<close>, as
  \<open>json.loads\<close> with its default arguments) except where it answers with the
  exception \<open>unsupported\<close>, which it does in place of a result that the model has no
  value for or that depends on the interpreter: a string with a \<open>\u\<close> escape, a number
  with a fraction or an exponent, \<open>NaN\<close>, \<open>Infinity\<close>, \<open>-Infinity\<close>, and arrays and
  objects nested more than \<open>max_depth\<close> deep (Python raises \<open>RecursionError\<close> at a
  depth that depends on the interpreter).
\<close>

datatype json =
    JNull
  | JBool bool
  | JNumber int
  | JString ustr
  | JArray "json list"
  | JObject "(ustr \<times> json) list"

definition decode_error :: exn where
  \<open>decode_error = Exn JSONDecodeError (u ''JSONDecodeError'')\<close>

definition unsupported :: exn where
  \<open>unsupported = Exn OtherException (u ''outside the reference model'')\<close>

definition json_ws :: "nat \<Rightarrow> bool" where
  "json_ws c \<longleftrightarrow> c = 32 \<or> c = 9 \<or> c = 10 \<or> c = 13"

definition skip_ws :: "ustr \<Rightarrow> ustr" where
  "skip_ws = dropWhile json_ws"

definition is_digit :: "nat \<Rightarrow> bool" where
  "is_digit c \<longleftrightarrow> 48 \<le> c \<and> c \<le> 57"

text \<open>\<open>dict.__setitem__\<close>: a present key keeps its place and takes the new value.\<close>

fun dict_set :: "ustr \<Rightarrow> json \<Rightarrow> (ustr \<times> json) list \<Rightarrow> (ustr \<times> json) list" where
  "dict_set k v [] = [(k, v)]"
| "dict_set k v ((k', v') # rest) =
     (if k = k' then (k, v) # rest else (k', v') # dict_set k v rest)"

text \<open>The text after an opening quote, up to the closing quote.\<close>

fun parse_string :: "ustr \<Rightarrow> ustr \<Rightarrow> exn + (ustr \<times> ustr)" where
  "parse_string [] acc = Inl decode_error"
| "parse_string (c # cs) acc =
     (if c = 34 then Inr (acc, cs)
      else if c = 92 then
        (case cs of
           [] \<Rightarrow> Inl decode_error
         | e # cs' \<Rightarrow>
             if e = 34 \<or> e = 92 \<or> e = 47 then parse_string cs' (acc @ [e])
             else if e = 98 then parse_string cs' (acc @ [8])
             else if e = 102 then parse_string cs' (acc @ [12])
             else if e = 110 then parse_string cs' (acc @ [10])
             else if e = 114 then parse_string cs' (acc @ [13])
             else if e = 116 then parse_string cs' (acc @ [9])
             else if e = 117 then Inl unsupported
             else Inl decode_error)
      else if c < 32 then Inl decode_error
      else parse_string cs (acc @ [c]))"

definition digits_value :: "ustr \<Rightarrow> int" where
  "digits_value ds = foldl (\<lambda>a c. 10 * a + int (c - 48)) 0 ds"

text \<open>
  The text after the integer part of a number continues it to a float: a dot and a
  digit, or \<open>e\<close> or \<open>E\<close>, an optional sign and a digit.
\<close>

definition is_float_tail :: "ustr \<Rightarrow> bool" where
  "is_float_tail rest =
     (case rest of
        [] \<Rightarrow> False
      | c # r1 \<Rightarrow>
          (case r1 of
             [] \<Rightarrow> False
           | d # r2 \<Rightarrow>
               (c = 46 \<and> is_digit d)
               \<or> ((c = 101 \<or> c = 69)
                    \<and> (is_digit d
                        \<or> ((d = 43 \<or> d = 45)
                            \<and> (case r2 of [] \<Rightarrow> False | d2 # _ \<Rightarrow> is_digit d2))))))"

text \<open>A number after its optional sign: \<open>0\<close> or a digit sequence without leading zero.\<close>

definition parse_int :: "bool \<Rightarrow> ustr \<Rightarrow> exn + (json \<times> ustr)" where
  \<open>parse_int neg cs =
     (let ds = (if take 1 cs = [48] then [48] else takeWhile is_digit cs);
          rest = drop (length ds) cs
      in if ds = []
         then (if neg \<and> prefix (u ''Infinity'') cs then Inl unsupported else Inl decode_error)
         else if is_float_tail rest then Inl unsupported
         else Inr (JNumber (if neg then - digits_value ds else digits_value ds), rest))\<close>

definition max_depth :: nat where
  "max_depth = 100"

text \<open>
  The recursive descent. The first argument bounds the number of steps; \<open>json_loads\<close>
  starts it with the length of the text, which the steps cannot exceed, each one
  consuming a code point. The second argument is the nesting depth.
\<close>

fun parse_value :: "nat \<Rightarrow> nat \<Rightarrow> ustr \<Rightarrow> exn + (json \<times> ustr)"
  and parse_members :: "nat \<Rightarrow> nat \<Rightarrow> ustr \<Rightarrow> (ustr \<times> json) list \<Rightarrow> exn + (json \<times> ustr)"
  and parse_elements :: "nat \<Rightarrow> nat \<Rightarrow> ustr \<Rightarrow> json list \<Rightarrow> exn + (json \<times> ustr)" where
  \<open>parse_value 0 depth cs = Inl unsupported\<close>
| \<open>parse_value (Suc n) depth cs =
     (case cs of
        [] \<Rightarrow> Inl decode_error
      | c # rest \<Rightarrow>
          if c = 34 then
            (case parse_string rest [] of
               Inl e \<Rightarrow> Inl e
             | Inr (s, rest') \<Rightarrow> Inr (JString s, rest'))
          else if c = 123 then
            (if max_depth \<le> depth then Inl unsupported
             else
               (case skip_ws rest of
                  [] \<Rightarrow> Inl decode_error
                | d # rest' \<Rightarrow>
                    if d = 125 then Inr (JObject [], rest')
                    else parse_members n (Suc depth) (d # rest') []))
          else if c = 91 then
            (if max_depth \<le> depth then Inl unsupported
             else
               (case skip_ws rest of
                  [] \<Rightarrow> Inl decode_error
                | d # rest' \<Rightarrow>
                    if d = 93 then Inr (JArray [], rest')
                    else parse_elements n (Suc depth) (d # rest') []))
          else if prefix (u ''null'') cs then Inr (JNull, drop 4 cs)
          else if prefix (u ''true'') cs then Inr (JBool True, drop 4 cs)
          else if prefix (u ''false'') cs then Inr (JBool False, drop 5 cs)
          else if prefix (u ''NaN'') cs \<or> prefix (u ''Infinity'') cs then Inl unsupported
          else if c = 45 then parse_int True rest
          else parse_int False cs)\<close>
| \<open>parse_members 0 depth cs acc = Inl unsupported\<close>
| \<open>parse_members (Suc n) depth cs acc =
     (case cs of
        [] \<Rightarrow> Inl decode_error
      | c # rest \<Rightarrow>
          if c \<noteq> 34 then Inl decode_error
          else
            (case parse_string rest [] of
               Inl e \<Rightarrow> Inl e
             | Inr (k, rest1) \<Rightarrow>
                 (case skip_ws rest1 of
                    [] \<Rightarrow> Inl decode_error
                  | colon # rest2 \<Rightarrow>
                      if colon \<noteq> 58 then Inl decode_error
                      else
                        (case parse_value n depth (skip_ws rest2) of
                           Inl e \<Rightarrow> Inl e
                         | Inr (v, rest3) \<Rightarrow>
                             (case skip_ws rest3 of
                                [] \<Rightarrow> Inl decode_error
                              | d # rest4 \<Rightarrow>
                                  if d = 125 then Inr (JObject (dict_set k v acc), rest4)
                                  else if d = 44
                                  then parse_members n depth (skip_ws rest4) (dict_set k v acc)
                                  else Inl decode_error)))))\<close>
| \<open>parse_elements 0 depth cs acc = Inl unsupported\<close>
| \<open>parse_elements (Suc n) depth cs acc =
     (case parse_value n depth cs of
        Inl e \<Rightarrow> Inl e
      | Inr (v, rest) \<Rightarrow>
          (case skip_ws rest of
             [] \<Rightarrow> Inl decode_error
           | d # rest' \<Rightarrow>
               if d = 93 then Inr (JArray (acc @ [v]), rest')
               else if d = 44 then parse_elements n depth (skip_ws rest') (acc @ [v])
               else Inl decode_error))\<close>

text \<open>\<open>json.loads(s)\<close>: one value between optional whitespace, and nothing after it.\<close>

definition json_loads :: "ustr \<Rightarrow> exn + json" where
  "json_loads s =
     (case parse_value (Suc (length s)) 0 (skip_ws s) of
        Inl e \<Rightarrow> Inl e
      | Inr (v, rest) \<Rightarrow> if skip_ws rest = [] then Inr v else Inl decode_error)"

subsection \<open>\<open>urlparse\<close>\<close>

text \<open>
  The scheme and the network location as \<open>urllib.parse.urlsplit\<close> computes them: the
  scheme is the text before the first colon when it starts with an ASCII letter and
  consists of letters, digits, \<open>+\<close>, \<open>-\<close> and \<open>.\<close>; the network location follows
  \<open>//\<close> and ends before the first \<open>/\<close>, \<open>?\<close> or \<open>#\<close>. The model is exact on strings
  of printable ASCII without spaces and without square brackets; on every other
  string it raises \<open>ValueError\<close>, which Python does for some of them only.
\<close>

definition is_alpha :: "nat \<Rightarrow> bool" where
  "is_alpha c \<longleftrightarrow> (65 \<le> c \<and> c \<le> 90) \<or> (97 \<le> c \<and> c \<le> 122)"

definition scheme_char :: "nat \<Rightarrow> bool" where
  "scheme_char c \<longleftrightarrow> is_alpha c \<or> is_digit c \<or> c = 43 \<or> c = 45 \<or> c = 46"

definition plain_char :: "nat \<Rightarrow> bool" where
  "plain_char c \<longleftrightarrow> 33 \<le> c \<and> c \<le> 126 \<and> c \<noteq> 91 \<and> c \<noteq> 93"

definition split_scheme :: "ustr \<Rightarrow> ustr \<times> ustr" where
  "split_scheme url =
     (let pre = takeWhile (\<lambda>c. c \<noteq> 58) url
      in if length pre < length url \<and> pre \<noteq> [] \<and> is_alpha (hd pre) \<and> list_all scheme_char pre
         then (map lower_ascii pre, drop (length pre + 1) url)
         else ([], url))"

definition split_netloc :: "ustr \<Rightarrow> ustr" where
  "split_netloc rest =
     (if take 2 rest = [47, 47]
      then takeWhile (\<lambda>c. c \<noteq> 47 \<and> c \<noteq> 63 \<and> c \<noteq> 35) (drop 2 rest)
      else [])"

definition urlparse_ascii :: "ustr \<Rightarrow> ustr + parse_result" where
  \<open>urlparse_ascii url =
     (if list_all plain_char url
      then (let (sch, rest) = split_scheme url
            in Inr \<lparr>scheme = sch, netloc = split_netloc rest\<rparr>)
      else Inl (u ''outside the reference model''))\<close>

text \<open>
  A quiet environment: every call succeeds, the temporary file of the \<open>k\<close>-th source is
  \<open>/tmp/tmp<k>.pdf\<close>, every download is a 200 with an empty body, and the model answers
  \<open>ok\<close>. Concrete environments below change single oracles of it.
\<close>

definition quiet :: env where
  \<open>quiet =
     \<lparr>named_temporary_file = (\<lambda>k. Inr (u ''/tmp/tmp'' @ str_nat k @ u ''.pdf'')),
      tmp_write = (\<lambda>k. None),
      open_read = (\<lambda>k. None),
      os_unlink = (\<lambda>k. None),
      httpx_get = (\<lambda>k url. Inr \<lparr>status_code = 200, content = []\<rparr>),
      raise_for_status = (\<lambda>r. None),
      urlparse = urlparse_ascii,
      generate_content = (\<lambda>st k data prompt. Inr (Some (u ''ok'')))\<rparr>\<close>

definition world0 :: world where
  "world0 = \<lparr>files = Map.empty, errors = [], st_errors = [], fetched = [], asked = [],
             loads_calls = []\<rparr>"

section \<open>The behaviour the specification describes\<close>

text \<open>
  One entry of the transcript as the specification words it: a question and its answer
  under the same number.
\<close>

definition numbered_pair :: "nat \<times> chat_turn \<Rightarrow> ustr" where
  \<open>numbered_pair = (\<lambda>(i, t).
     u ''\<newline>\<newline>Pregunta '' @ str_nat i @ u '': '' @ question t
       @ u ''\<newline>Respuesta '' @ str_nat i @ u '': '' @ answer t)\<close>

text \<open>
  The usable answer of the model for one document: none when the call raises, when the
  reply has no text, or when the text is empty.
\<close>

definition reply ::
  "env \<Rightarrow> source_type \<Rightarrow> nat \<Rightarrow> bytes \<Rightarrow> ustr \<Rightarrow> chat_turn list option \<Rightarrow> ustr option" where
  "reply E st k data prompt_text chat_history =
     (case generate_content E st k data (build_prompt prompt_text chat_history) of
        Inl e \<Rightarrow> None
      | Inr None \<Rightarrow> None
      | Inr (Some t) \<Rightarrow> if t = [] then None else Some t)"

text \<open>
  What one source contributes to the result, by itself: an entry when every step
  succeeds and the model gives a usable answer, nothing otherwise.
\<close>

fun outcome ::
  "env \<Rightarrow> ustr \<Rightarrow> source_type \<Rightarrow> chat_turn list option \<Rightarrow> nat \<Rightarrow> source
     \<Rightarrow> response_entry option" where
  "outcome E p File h k (UploadedFile f) =
     (if \<not> isl (named_temporary_file E k) \<and> tmp_write E k = None \<and> open_read E k = None
      then map_option (\<lambda>t. \<lparr>filename = name f, response = t\<rparr>) (reply E File k (getvalue f) p h)
      else None)"
| \<open>outcome E p Url h k (UrlReference s) =
     (case httpx_get E k s of
        Inl e \<Rightarrow> None
      | Inr resp \<Rightarrow>
          if raise_for_status E resp = None \<and> status_code resp = 200
          then (case urlparse E s of
                  Inl m \<Rightarrow> None
                | Inr r \<Rightarrow>
                    map_option
                      (\<lambda>t. \<lparr>filename = u ''PDF_from_'' @ netloc r @ u ''.pdf'', response = t\<rparr>)
                      (reply E Url k (content resp) p h))
          else None)\<close>
| "outcome E p File h k (UrlReference s) = None"
| "outcome E p Url h k (UploadedFile f) = None"

definition entry_list :: "response_entry option \<Rightarrow> response_entry list" where
  "entry_list x = (case x of None \<Rightarrow> [] | Some e \<Rightarrow> [e])"

text \<open>The entries of a batch: those of its sources, in the order of the sources.\<close>

definition batch_entries ::
  "env \<Rightarrow> ustr \<Rightarrow> source_type \<Rightarrow> chat_turn list option \<Rightarrow> nat \<Rightarrow> source list
     \<Rightarrow> response_entry list" where
  "batch_entries E p st h k srcs =
     concat (map (\<lambda>(i, src). entry_list (outcome E p st h i src)) (List.enumerate k srcs))"

text \<open>An environment in which the first download fails.\<close>

definition first_fetch_fails :: env where
  \<open>first_fetch_fails =
     quiet\<lparr>httpx_get :=
             (\<lambda>k url. if k = 0 then Inl (Exn OtherException (u ''ConnectError''))
                      else httpx_get quiet k url)\<rparr>\<close>

text \<open>Environments in which one file operation fails.\<close>

definition unlink_refused :: env where
  \<open>unlink_refused = quiet\<lparr>os_unlink := (\<lambda>k. Some (Exn OtherException (u ''PermissionError'')))\<rparr>\<close>

definition write_fails :: env where
  \<open>write_fails = quiet\<lparr>tmp_write := (\<lambda>k. Some (Exn OtherException (u ''OSError'')))\<rparr>\<close>

definition read_fails :: env where
  \<open>read_fails = quiet\<lparr>open_read := (\<lambda>k. Some (Exn OtherException (u ''OSError'')))\<rparr>\<close>

text \<open>
  The documents of an optional argument, and the entries of one request: those of the
  uploaded files, then those of the accepted URLs.
\<close>

definition docs_of :: "'a list option \<Rightarrow> 'a list" where
  "docs_of x = (case x of None \<Rightarrow> [] | Some xs \<Rightarrow> xs)"

definition yielded ::
  "env \<Rightarrow> ustr \<Rightarrow> uploaded_file list option \<Rightarrow> ustr list option \<Rightarrow> chat_turn list option
     \<Rightarrow> response_entry list" where
  "yielded E p file_docs url_docs h =
     batch_entries E p File h 0 (map UploadedFile (docs_of file_docs))
       @ batch_entries E p Url h 0 (map UrlReference (valid_urls E (docs_of url_docs)))"

text \<open>Environments for the examples: a model without text, and one answer per document.\<close>

definition silent_model :: env where
  \<open>silent_model = quiet\<lparr>generate_content := (\<lambda>st k d prompt. Inr (Some []))\<rparr>\<close>

definition two_answers :: env where
  \<open>two_answers =
     quiet\<lparr>generate_content :=
             (\<lambda>st k d prompt. Inr (Some (if k = 0 then u ''R1'' else u ''R2'')))\<rparr>\<close>

text \<open>
  The code points a host name of the reference model is made of: those of the fragment
  that do not end the network location.
\<close>

definition host_char :: "nat \<Rightarrow> bool" where
  "host_char c \<longleftrightarrow> plain_char c \<and> c \<noteq> 47 \<and> c \<noteq> 63 \<and> c \<noteq> 35"

text \<open>
  What the extractor makes of one call of \<open>json.loads\<close>: the value, or nothing when
  the text does not parse; an exception that is neither a \<open>JSONDecodeError\<close> nor an
  \<open>AttributeError\<close> is not handled.
\<close>

definition decoded :: "exn + 'j \<Rightarrow> exn + 'j option" where
  "decoded r =
     (case r of
        Inr v \<Rightarrow> Inr (Some v)
      | Inl e \<Rightarrow> if cls e = JSONDecodeError \<or> cls e = AttributeError then Inr None else Inl e)"

text \<open>
  A text has a fenced block labelled \<open>json\<close>, as the program recognises one: the
  opening fence with its label and a line break, an interior, and a line break with the
  closing fence.
\<close>

definition has_json_block :: "ustr \<Rightarrow> bool" where
  "has_json_block t \<longleftrightarrow> (\<exists>pre g post. t = pre @ fence_open @ g @ fence_close @ post)"

text \<open>
  \<open>g\<close> is the interior of the first such block of \<open>pre @ fence_open @ g @ fence_close @ post\<close>:
  no opening fence starts in \<open>pre\<close>, and no closing fence starts in \<open>g\<close>.
\<close>

definition first_block :: "ustr \<Rightarrow> ustr \<Rightarrow> bool" where
  "first_block pre g \<longleftrightarrow>
     \<not> sublist fence_open (pre @ butlast fence_open)
     \<and> \<not> sublist fence_close (g @ butlast fence_close)"

text \<open>
  The body of the structured-summary question, in its parts: the text before the
  fenced block, the interior of the block, and the text after it.
\<close>

definition template_intro :: ustr where
  \<open>template_intro =
     u ''Analiza este documento de licitaci'' @ [243] @
     u ''n y devuelve un JSON con la siguiente estructura en formato '' @
     u ''Markdown:\<newline>\<newline>''\<close>

definition template_json :: ustr where
  \<open>template_json =
     u ''{\<newline>  "porcentaje_recomendacion": "X%",\<newline>  '' @
     u ''"porcentaje_recomendacion_short_explain": "Breve explicaci'' @ [243] @
     u ''n de 1-2 frases sobre el porcentaje de recomendaci'' @ [243] @
     u ''n",\<newline>  "objeto_contrato": "Descripci'' @ [243] @
     u ''n detallada del objeto del contrato",\<newline>  "presupuesto": '' @
     u ''"Presupuesto Base de Licitaci'' @ [243] @
     u ''n (sin IVA)",\<newline>  "solvencia_requerida": "Niveles de '' @
     u ''solvencia t'' @ [233] @ u ''cnica y econ'' @ [243] @
     u ''mica requeridos",\<newline>  "habilitaciones_necesarias": "Lista '' @
     u ''de habilitaciones, certificaciones o requisitos '' @
     u ''necesarios",\<newline>  "garantias": "Detalles sobre las garant'' @ [237] @
     u ''as requeridas (provisionales, definitivas, etc.)",\<newline>  '' @
     u ''"ecuaciones": "F'' @ [243] @ u ''rmulas o criterios de valoraci'' @ [243] @
     u ''n si los hay",\<newline>  "otras_condiciones": "Otras condiciones '' @
     u ''relevantes de la licitaci'' @ [243] @
     u ''n",\<newline>  "recomendacion": "An'' @ [225] @
     u ''lisis detallado y recomendaci'' @ [243] @
     u ''n sobre la conveniencia de participar"\<newline>}''\<close>

definition template_outro :: ustr where
  \<open>template_outro =
     u ''\<newline>\<newline>Por favor, completa cada campo con la '' @
     u ''informaci'' @ [243] @ u ''n relevante extra'' @ [237] @
     u ''da del documento. Si alg'' @ [250] @ u ''n dato no est'' @ [225] @
     u '' disponible, ind'' @ [237] @
     u ''calo como No especificado. El campo `porcentaje_recomendacion` '' @
     u ''debe ser un porcentaje (ej: "75%") y '' @
     u ''`porcentaje_recomendacion_short_explain` debe ser una explicaci'' @ [243] @
     u ''n concisa de 1-2 frases. Todos los valores de este JSON ser'' @ [225] @
     u ''n strings que siguen el formato markdown.''\<close>

text \<open>The keys of the predefined questions, without the empty default option.\<close>

definition question_keys :: "ustr list" where
  "question_keys = filter (\<lambda>k. k \<noteq> []) (map fst PREDEFINED_QUESTIONS)"

text \<open>The field names of a decoded JSON object, in order.\<close>

definition json_keys :: "exn + json option \<Rightarrow> ustr list" where
  "json_keys r = (case r of Inr (Some (JObject kvs)) \<Rightarrow> map fst kvs | _ \<Rightarrow> [])"

section \<open>Verified properties\<close>

subsection \<open>The loop over the sources\<close>

lemma process_pdf_data_fst:
  "fst (process_pdf_data (generate_content E st k) data p nm h w) = reply E st k data p h"
  by (simp add: process_pdf_data_def reply_def Let_def split: sum.splits option.splits)

lemma append_response_eq:
  "append_response nm r rs = rs @ entry_list (map_option (\<lambda>t. \<lparr>filename = nm, response = t\<rparr>) r)"
  by (simp add: append_response_def entry_list_def split: option.splits)

lemma file_source_responses:
  "fst (snd (file_source E p h k f rs w)) = rs @ entry_list (outcome E p File h k (UploadedFile f))"
  by (auto simp add: file_source_def read_and_ask_def Let_def append_response_eq entry_list_def
      process_pdf_data_fst split_beta
      split: sum.splits option.splits prod.splits)

lemma url_source_responses:
  "fst (snd (url_source E p h k s rs w)) = rs @ entry_list (outcome E p Url h k (UrlReference s))"
  by (auto simp add: url_source_def Let_def append_response_eq entry_list_def
      process_pdf_data_fst split_beta
      split: sum.splits option.splits prod.splits)

lemma one_source_responses:
  "fst (snd (one_source E p st h k src rs w)) = rs @ entry_list (outcome E p st h k src)"
  by (cases "(E, p, st, h, k, src, rs, w)" rule: one_source.cases)
     (simp_all add: file_source_responses url_source_responses entry_list_def url_failed_def)

lemma sources_loop_responses:
  "fst (sources_loop E p st h k srcs rs w) = rs @ batch_entries E p st h k srcs"
  unfolding batch_entries_def
proof (induction srcs arbitrary: k rs w)
  case Nil
  then show ?case by simp
next
  case (Cons src srcs)
  obtain r rs' w' where one: "one_source E p st h k src rs w = (r, rs', w')"
    by (cases "one_source E p st h k src rs w") auto
  have rs': "rs' = rs @ entry_list (outcome E p st h k src)"
    using one_source_responses [of E p st h k src rs w] one by simp
  show ?case
    using one rs' Cons.IH by (cases r) simp_all
qed

lemma process_pdf_with_gemini_responses:
  "fst (process_pdf_with_gemini E srcs p st h w) = batch_entries E p st h 0 srcs"
  by (simp add: process_pdf_with_gemini_def sources_loop_responses)

text \<open>
  C1. The result of one call is the list of the entries of its sources, each computed
  from that source alone, in the order of the sources; the call always returns a list.
  A source whose temporary file cannot be created, written or read, whose download
  fails or is not a 200, whose URL does not parse, or whose model call raises or gives
  no text or an empty text, contributes no entry. For sources \<open>[A, B]\<close> where \<open>A\<close>
  fails and \<open>B\<close> gives the entry \<open>e\<close>, the result is \<open>[e]\<close>.
\<close>

theorem failures_are_skipped:
  "fst (process_pdf_with_gemini E srcs p st h w) = batch_entries E p st h 0 srcs
   \<and> batch_entries E p st h k (src # rest)
       = entry_list (outcome E p st h k src) @ batch_entries E p st h (Suc k) rest
   \<and> (outcome E p st h 0 A = None \<and> outcome E p st h 1 B = Some e
        \<longrightarrow> fst (process_pdf_with_gemini E [A, B] p st h w) = [e])
   \<and> (isl (named_temporary_file E k) \<or> tmp_write E k \<noteq> None \<or> open_read E k \<noteq> None
        \<or> reply E File k (getvalue f) p h = None
        \<longrightarrow> outcome E p File h k (UploadedFile f) = None)
   \<and> (isl (httpx_get E k s) \<or> isl (urlparse E s)
        \<or> (\<forall>resp. httpx_get E k s = Inr resp
              \<longrightarrow> raise_for_status E resp \<noteq> None \<or> status_code resp \<noteq> 200
                  \<or> reply E Url k (content resp) p h = None)
        \<longrightarrow> outcome E p Url h k (UrlReference s) = None)
   \<and> (reply E st k d p h = None
        \<longleftrightarrow> isl (generate_content E st k d (build_prompt p h))
            \<or> generate_content E st k d (build_prompt p h) = Inr None
            \<or> generate_content E st k d (build_prompt p h) = Inr (Some []))"
proof -
  have all: "fst (process_pdf_with_gemini E srcs p st h w) = batch_entries E p st h 0 srcs" for srcs
    by (rule process_pdf_with_gemini_responses)
  have step: "batch_entries E p st h k (src # rest)
       = entry_list (outcome E p st h k src) @ batch_entries E p st h (Suc k) rest"
    by (simp add: batch_entries_def)
  have two: "fst (process_pdf_with_gemini E [A, B] p st h w) = [e]"
    if "outcome E p st h 0 A = None" "outcome E p st h 1 B = Some e"
    using that by (simp add: all batch_entries_def entry_list_def)
  have file_kinds: "outcome E p File h k (UploadedFile f) = None"
    if "isl (named_temporary_file E k) \<or> tmp_write E k \<noteq> None \<or> open_read E k \<noteq> None
        \<or> reply E File k (getvalue f) p h = None"
    using that by auto
  have url_kinds: "outcome E p Url h k (UrlReference s) = None"
    if "isl (httpx_get E k s) \<or> isl (urlparse E s)
        \<or> (\<forall>resp. httpx_get E k s = Inr resp
              \<longrightarrow> raise_for_status E resp \<noteq> None \<or> status_code resp \<noteq> 200
                  \<or> reply E Url k (content resp) p h = None)"
    using that by (auto split: sum.splits)
  have rep: "reply E st k d p h = None
        \<longleftrightarrow> isl (generate_content E st k d (build_prompt p h))
            \<or> generate_content E st k d (build_prompt p h) = Inr None
            \<or> generate_content E st k d (build_prompt p h) = Inr (Some [])"
    by (auto simp add: reply_def split: sum.splits option.splits)
  from all step two file_kinds url_kinds rep show ?thesis
    by blast
qed

theorem failures_are_skipped_witness:
  \<open>outcome first_fetch_fails (u ''q'') Url None 0 (UrlReference (u ''https://a.example/x.pdf'')) = None
   \<and> outcome first_fetch_fails (u ''q'') Url None 1 (UrlReference (u ''https://b.example/y.pdf''))
       = Some \<lparr>filename = u ''PDF_from_b.example.pdf'', response = u ''ok''\<rparr>
   \<and> fst (process_pdf_with_gemini first_fetch_fails
        [UrlReference (u ''https://a.example/x.pdf''), UrlReference (u ''https://b.example/y.pdf'')]
        (u ''q'') Url None world0)
     = [\<lparr>filename = u ''PDF_from_b.example.pdf'', response = u ''ok''\<rparr>]\<close>
proof -
  have a: "outcome first_fetch_fails (u ''q'') Url None 0 (UrlReference (u ''https://a.example/x.pdf'')) = None"
    by (simp add: first_fetch_fails_def quiet_def)
  have b: "outcome first_fetch_fails (u ''q'') Url None 1 (UrlReference (u ''https://b.example/y.pdf''))
       = Some \<lparr>filename = u ''PDF_from_b.example.pdf'', response = u ''ok''\<rparr>"
    by (simp add: first_fetch_fails_def quiet_def reply_def urlparse_ascii_def split_scheme_def
         split_netloc_def plain_char_def is_alpha_def scheme_char_def is_digit_def lower_ascii_def u_def)
  from a b failures_are_skipped [of first_fetch_fails _ "u ''q''" Url None]
  show ?thesis by blast
qed

subsection \<open>The temporary file\<close>

lemma tmp0: \<open>u ''/tmp/tmp'' @ str_nat 0 @ u ''.pdf'' = u ''/tmp/tmp0.pdf''\<close>
  by (simp add: str_nat.simps u_def)

text \<open>
  C2, as stated, fails: when the system refuses the deletion, the handler logs the
  error and the temporary file is still there after the call.
\<close>

theorem temporary_file_left_behind:
  \<open>files (snd (snd (file_source unlink_refused (u ''q'') None 0 \<lparr>name = u ''x.pdf'', getvalue = [1, 2]\<rparr> [] world0)))
     (u ''/tmp/tmp0.pdf'') = Some [1, 2]\<close>
  by (simp add: file_source_def unlink_refused_def quiet_def world0_def read_and_ask_def
      process_pdf_data_def cleanup_def unlink_def Let_def tmp0)

text \<open>
  When writing the upload to the temporary file fails, the exception leaves the \<open>with\<close>
  block before the \<open>try\<close> is entered, and the file stays as well.
\<close>

lemma write_failure_leaves_file:
  \<open>files (snd (snd (file_source write_fails (u ''q'') None 0 \<lparr>name = u ''x.pdf'', getvalue = [1, 2]\<rparr> [] world0)))
     (u ''/tmp/tmp0.pdf'') = Some []\<close>
  by (simp add: file_source_def write_fails_def quiet_def world0_def Let_def tmp0)

lemma process_pdf_data_files: "files (snd (process_pdf_data g d p n h w)) = files w"
  by (simp add: process_pdf_data_def Let_def split: sum.splits option.splits)

lemma process_pdf_data_errors_prefix: "\<exists>es. errors (snd (process_pdf_data g d p n h w)) = errors w @ es"
  by (simp add: process_pdf_data_def Let_def split: sum.splits option.splits)

lemma read_and_ask_files: "files (snd (snd (read_and_ask E p h k f path rs w))) = files w"
  by (simp add: read_and_ask_def split_beta process_pdf_data_files split: option.splits)

lemma read_and_ask_raised:
  "files w path \<noteq> None \<Longrightarrow> fst (read_and_ask E p h k f path rs w) = open_read E k"
  by (auto simp add: read_and_ask_def split_beta split: option.splits)

text \<open>
  C2, amended. Once the temporary file has been created and written, its deletion is
  attempted on every way out of the block that reads it and asks the model. If the
  system performs the deletion, the file does not exist after the call, whether the
  read or the model call succeeded or failed. If the system refuses, the error is
  logged and the file stays. In both cases the only exception that leaves the call is
  the one of the read, if any: a failed deletion is never propagated.
\<close>

theorem temporary_file_cleanup:
  assumes created: "named_temporary_file E k = Inr path"
    and written: "tmp_write E k = None"
  shows "(os_unlink E k = None \<longrightarrow>
            files (snd (snd (file_source E p h k f rs w))) path = None)
       \<and> (\<forall>e. os_unlink E k = Some e \<longrightarrow>
            ErrorDeletingTemporaryFile e \<in> set (errors (snd (snd (file_source E p h k f rs w))))
            \<and> files (snd (snd (file_source E p h k f rs w))) path = Some (getvalue f))
       \<and> fst (file_source E p h k f rs w) = open_read E k"
proof -
  let ?w2 = "w\<lparr>files := (files w)(path \<mapsto> getvalue f)\<rparr>"
  let ?r = "read_and_ask E p h k f path rs ?w2"
  have fs: "file_source E p h k f rs w = (fst ?r, fst (snd ?r), cleanup E k path (snd (snd ?r)))"
    using created written by (simp add: file_source_def Let_def split_beta)
  have files3: "files (snd (snd ?r)) = (files w)(path \<mapsto> getvalue f)"
    by (simp add: read_and_ask_files)
  have raised: "fst ?r = open_read E k"
    by (rule read_and_ask_raised) simp
  have gone: "files (cleanup E k path (snd (snd ?r))) path = None" if "os_unlink E k = None"
    using that files3 by (simp add: cleanup_def unlink_def)
  have kept: "ErrorDeletingTemporaryFile e \<in> set (errors (cleanup E k path (snd (snd ?r))))
      \<and> files (cleanup E k path (snd (snd ?r))) path = Some (getvalue f)" if "os_unlink E k = Some e" for e
    using that files3 by (simp add: cleanup_def unlink_def)
  show ?thesis
    using fs raised gone kept by simp
qed

theorem temporary_file_cleanup_witness:
  \<open>files (snd (snd (file_source read_fails (u ''q'') None 0 \<lparr>name = u ''x.pdf'', getvalue = [1, 2]\<rparr> [] world0)))
      (u ''/tmp/tmp0.pdf'') = None
   \<and> fst (file_source read_fails (u ''q'') None 0 \<lparr>name = u ''x.pdf'', getvalue = [1, 2]\<rparr> [] world0)
       = Some (Exn OtherException (u ''OSError''))\<close>
proof -
  have c: "named_temporary_file read_fails 0 = Inr (u ''/tmp/tmp0.pdf'')"
    by (simp add: read_fails_def quiet_def tmp0)
  have wr: "tmp_write read_fails 0 = None"
    by (simp add: read_fails_def quiet_def)
  have un: "os_unlink read_fails 0 = None"
    by (simp add: read_fails_def quiet_def)
  have rd: "open_read read_fails 0 = Some (Exn OtherException (u ''OSError''))"
    by (simp add: read_fails_def quiet_def)
  from temporary_file_cleanup [OF c wr, of "u ''q''" None "\<lparr>name = u ''x.pdf'', getvalue = [1, 2]\<rparr>" "[]" world0] un rd
  show ?thesis by simp
qed

subsection \<open>Prompt Builder\<close>

lemma history_loop_eq:
  "history_loop i ts ctx = ctx @ concat (map numbered_pair (List.enumerate i ts))"
  by (induction ts arbitrary: i ctx) (simp_all add: numbered_pair_def)

lemma enumerate_butlast_nth:
  assumes "k < length h - 1"
  shows "List.enumerate 1 (butlast h) ! k = (k + 1, h ! k)"
  using assms by (simp add: nth_enumerate_eq nth_butlast)

text \<open>
  C3. Without a history, or with a history of at most one turn, the history context is
  empty and the prompt is the preamble followed by the question, with no header and no
  transcript. With two or more turns the prompt is the preamble, then the header, then
  one numbered question/answer pair for each turn but the last, numbered from 1 in
  the original order, \<open>length h - 1\<close> pairs in all, then the question. The last
  turn, which holds the placeholder answer of the question being asked, has no
  influence on the prompt.
\<close>

theorem prompt_history_block:
  fixes h :: "chat_turn list"
  shows \<open>history_context None = []
   \<and> build_prompt q None = base_prompt @ u ''\<newline>\<newline>'' @ u ''\<newline>\<newline>Pregunta: '' @ q
   \<and> (length h \<le> 1 \<longrightarrow>
        history_context (Some h) = []
        \<and> build_prompt q (Some h) = base_prompt @ u ''\<newline>\<newline>'' @ u ''\<newline>\<newline>Pregunta: '' @ q)
   \<and> (2 \<le> length h \<longrightarrow>
        history_context (Some h)
          = history_header @ concat (map numbered_pair (List.enumerate 1 (butlast h))) @ u ''\<newline>\<newline>''
        \<and> build_prompt q (Some h)
          = base_prompt @ u ''\<newline>\<newline>''
              @ (history_header @ concat (map numbered_pair (List.enumerate 1 (butlast h)))
                   @ u ''\<newline>\<newline>'')
              @ u ''\<newline>\<newline>Pregunta: '' @ q
        \<and> length (List.enumerate 1 (butlast h)) = length h - 1
        \<and> (\<forall>k < length h - 1. List.enumerate 1 (butlast h) ! k = (k + 1, h ! k)))
   \<and> numbered_pair (i, t)
        = u ''\<newline>\<newline>Pregunta '' @ str_nat i @ u '': '' @ question t
            @ u ''\<newline>Respuesta '' @ str_nat i @ u '': '' @ answer t
   \<and> build_prompt q (Some (h @ [t])) = build_prompt q (Some (h @ [t']))\<close>
proof -
  have none: "history_context None = []"
    by (simp add: history_context_def)
  have prompt0: "build_prompt q None = base_prompt @ u ''\<newline>\<newline>'' @ u ''\<newline>\<newline>Pregunta: '' @ q"
    using none by (simp add: build_prompt_def)
  have short: "history_context (Some h) = []" if "length h \<le> 1"
    using that by (simp add: history_context_def)
  have long: "history_context (Some h)
      = history_header @ concat (map numbered_pair (List.enumerate 1 (butlast h))) @ u ''\<newline>\<newline>''"
    if "2 \<le> length h"
    using that by (auto simp add: history_context_def history_loop_eq)
  have last: "history_context (Some (h @ [t])) = history_context (Some (h @ [t']))"
    by (simp add: history_context_def)
  have nth: "\<forall>k < length h - 1. List.enumerate 1 (butlast h) ! k = (k + 1, h ! k)"
    using enumerate_butlast_nth by blast
  have len: "length (List.enumerate 1 (butlast h)) = length h - 1"
    by simp
  have prompt1: "build_prompt q (Some h) = base_prompt @ u ''\<newline>\<newline>'' @ u ''\<newline>\<newline>Pregunta: '' @ q"
    if "length h \<le> 1"
    using short [OF that] by (simp add: build_prompt_def)
  have prompt_long: "build_prompt q (Some h)
          = base_prompt @ u ''\<newline>\<newline>''
              @ (history_header @ concat (map numbered_pair (List.enumerate 1 (butlast h)))
                   @ u ''\<newline>\<newline>'')
              @ u ''\<newline>\<newline>Pregunta: '' @ q"
    if "2 \<le> length h"
    using long [OF that] by (simp add: build_prompt_def)
  have pair: "numbered_pair (i, t)
        = u ''\<newline>\<newline>Pregunta '' @ str_nat i @ u '': '' @ question t
            @ u ''\<newline>Respuesta '' @ str_nat i @ u '': '' @ answer t"
    by (simp add: numbered_pair_def)
  have prompt2: "build_prompt q (Some (h @ [t])) = build_prompt q (Some (h @ [t']))"
    using last by (simp add: build_prompt_def)
  from none prompt0 short long nth len prompt1 prompt_long pair prompt2 show ?thesis
    by blast
qed

theorem prompt_history_block_witness:
  \<open>build_prompt (u ''q3'')
      (Some [\<lparr>question = u ''q1'', answer = u ''a1'', is_json_summary = False\<rparr>,
             \<lparr>question = u ''q2'', answer = u ''a2'', is_json_summary = False\<rparr>,
             \<lparr>question = u ''q3'', answer = u ''Procesando...'', is_json_summary = False\<rparr>])
     = base_prompt @ u ''\<newline>\<newline>''
         @ history_header
         @ u ''\<newline>\<newline>Pregunta 1: q1\<newline>Respuesta 1: a1''
         @ u ''\<newline>\<newline>Pregunta 2: q2\<newline>Respuesta 2: a2''
         @ u ''\<newline>\<newline>''
         @ u ''\<newline>\<newline>Pregunta: q3''
   \<and> history_context
      (Some [\<lparr>question = u ''q1'', answer = u ''a1'', is_json_summary = False\<rparr>,
             \<lparr>question = u ''q2'', answer = u ''Procesando...'', is_json_summary = False\<rparr>])
     = history_header @ u ''\<newline>\<newline>Pregunta 1: q1\<newline>Respuesta 1: a1'' @ u ''\<newline>\<newline>''
   \<and> build_prompt (u ''q2'')
      (Some [\<lparr>question = u ''q2'', answer = u ''Procesando...'', is_json_summary = False\<rparr>])
     = base_prompt @ u ''\<newline>\<newline>'' @ u ''\<newline>\<newline>Pregunta: q2''
   \<and> history_context (Some [\<lparr>question = u ''q2'', answer = u ''Procesando...'', is_json_summary = False\<rparr>]) = []\<close>
proof -
  let ?t1 = "\<lparr>question = u ''q1'', answer = u ''a1'', is_json_summary = False\<rparr>"
  let ?t2 = "\<lparr>question = u ''q2'', answer = u ''a2'', is_json_summary = False\<rparr>"
  let ?t3 = "\<lparr>question = u ''q3'', answer = u ''Procesando...'', is_json_summary = False\<rparr>"
  let ?p2 = "\<lparr>question = u ''q2'', answer = u ''Procesando...'', is_json_summary = False\<rparr>"
  have l3: "2 \<le> length [?t1, ?t2, ?t3]" and l2: "2 \<le> length [?t1, ?p2]" and l1: "length [?p2] \<le> 1"
    by simp_all
  have n1: "str_nat (Suc 0) = u ''1''" and n2: "str_nat (Suc (Suc 0)) = u ''2''"
    by (simp_all add: str_nat.simps u_def)
  note a = prompt_history_block [where h = "[?t1, ?t2, ?t3]" and q = "u ''q3''"]
  note b = prompt_history_block [where h = "[?t1, ?p2]" and q = "u ''q2''"]
  note c = prompt_history_block [where h = "[?p2]" and q = "u ''q2''"]
  have w1: "build_prompt (u ''q3'') (Some [?t1, ?t2, ?t3])
     = base_prompt @ u ''\<newline>\<newline>''
         @ history_header
         @ u ''\<newline>\<newline>Pregunta 1: q1\<newline>Respuesta 1: a1''
         @ u ''\<newline>\<newline>Pregunta 2: q2\<newline>Respuesta 2: a2''
         @ u ''\<newline>\<newline>''
         @ u ''\<newline>\<newline>Pregunta: q3''"
    using a l3 by (simp add: numbered_pair_def n1 n2 u_def)
  have w2: "history_context (Some [?t1, ?p2])
     = history_header @ u ''\<newline>\<newline>Pregunta 1: q1\<newline>Respuesta 1: a1'' @ u ''\<newline>\<newline>''"
    using b l2 by (simp add: numbered_pair_def n1 u_def)
  have w3: "build_prompt (u ''q2'') (Some [?p2]) = base_prompt @ u ''\<newline>\<newline>'' @ u ''\<newline>\<newline>Pregunta: q2''"
    using c l1 by (simp add: u_def)
  have w4: "history_context (Some [?p2]) = []"
    using c l1 by simp
  from w1 w2 w3 w4 show ?thesis by blast
qed

subsection \<open>Rendering\<close>

lemma join_Cons: "xs \<noteq> [] \<Longrightarrow> join sep (x # xs) = x @ sep @ join sep xs"
  by (cases xs) simp_all

subsection \<open>The aggregated answer\<close>

lemma batch_entries_Nil: "batch_entries E p st h k [] = []"
  by (simp add: batch_entries_def)

lemma file_stage_responses:
  "fst (file_stage E p fd h rs w) = rs @ batch_entries E p File h 0 (map UploadedFile (docs_of fd))"
  by (simp add: file_stage_def docs_of_def split_beta process_pdf_with_gemini_responses
      batch_entries_Nil split: option.splits)

lemma valid_urls_Nil: "valid_urls E [] = []"
  by (simp add: valid_urls_def)

lemma url_stage_responses:
  "fst (url_stage E p ud h rs w) = rs @ batch_entries E p Url h 0 (map UrlReference (valid_urls E (docs_of ud)))"
  by (simp add: url_stage_def docs_of_def split_beta Let_def process_pdf_with_gemini_responses
      batch_entries_Nil valid_urls_Nil split: option.splits)

lemma get_gemini_response_text:
  "fst (get_gemini_response E p fd ud h w)
     = (if yielded E p fd ud h = [] then no_documents
        else join separator (map format_response (yielded E p fd ud h)))"
proof -
  obtain rs1 w1 where f: "file_stage E p fd h [] w = (rs1, w1)"
    by (cases "file_stage E p fd h [] w") auto
  obtain rs2 w2 where g: "url_stage E p ud h rs1 w1 = (rs2, w2)"
    by (cases "url_stage E p ud h rs1 w1") auto
  have "rs1 = batch_entries E p File h 0 (map UploadedFile (docs_of fd))"
    using file_stage_responses [of E p fd h "[]" w] f by simp
  moreover have "rs2 = rs1 @ batch_entries E p Url h 0 (map UrlReference (valid_urls E (docs_of ud)))"
    using url_stage_responses [of E p ud h rs1 w1] g by simp
  ultimately have "rs2 = yielded E p fd ud h"
    by (simp add: yielded_def)
  then show ?thesis
    using f g by (simp add: get_gemini_response_def)
qed

lemmas ev_url = urlparse_ascii_def split_scheme_def split_netloc_def plain_char_def is_alpha_def
  scheme_char_def is_digit_def lower_ascii_def is_valid_url_def

text \<open>
  C4. When no source gives an entry, the answer is the sentinel sentence; so it is
  for a request without sources, whether the arguments are absent or empty lists.
  The function returns a string in every case.
\<close>

theorem no_output_gives_sentinel:
  \<open>(yielded E p fd ud h = [] \<longrightarrow> fst (get_gemini_response E p fd ud h w) = no_documents)
   \<and> get_gemini_response E p None None h w = (no_documents, w)
   \<and> get_gemini_response E p (Some []) (Some []) h w = (no_documents, w)
   \<and> no_documents
       = u ''Error: No se proporcionaron documentos. Por favor, sube un archivo PDF o proporciona una URL de PDF.''\<close>
  by (simp add: get_gemini_response_text)
     (simp add: get_gemini_response_def file_stage_def url_stage_def no_documents_def u_def)

theorem no_output_gives_sentinel_witness:
  \<open>yielded silent_model (u ''q'') (Some [\<lparr>name = u ''x.pdf'', getvalue = []\<rparr>])
      (Some [u ''https://a.example/doc'']) None = []
   \<and> fst (get_gemini_response silent_model (u ''q'') (Some [\<lparr>name = u ''x.pdf'', getvalue = []\<rparr>])
      (Some [u ''https://a.example/doc'']) None world0) = no_documents\<close>
proof -
  have v: "valid_urls silent_model [u ''https://a.example/doc''] = [u ''https://a.example/doc'']"
    by (simp add: valid_urls_def strip_def isspace_def silent_model_def quiet_def ev_url u_def)
  have y: "yielded silent_model (u ''q'') (Some [\<lparr>name = u ''x.pdf'', getvalue = []\<rparr>])
      (Some [u ''https://a.example/doc'']) None = []"
    unfolding yielded_def docs_of_def option.case v
    by (simp add: batch_entries_def entry_list_def reply_def silent_model_def quiet_def ev_url u_def)
  from y no_output_gives_sentinel [of silent_model "u ''q''" "Some [\<lparr>name = u ''x.pdf'', getvalue = []\<rparr>]"
      "Some [u ''https://a.example/doc'']" None world0]
  show ?thesis by simp
qed

text \<open>
  C7. When some source gives an entry, the answer is the entries, each rendered as
  the file name between double asterisks, a line break and the response, joined by the
  separator in the order of the sources (files before URLs).
\<close>

theorem rendering_in_source_order:
  \<open>(yielded E p fd ud h \<noteq> [] \<longrightarrow>
      fst (get_gemini_response E p fd ud h w) = join separator (map format_response (yielded E p fd ud h)))
   \<and> (rs \<noteq> [] \<longrightarrow>
        join separator (map format_response (r # rs))
          = (u ''**'' @ filename r @ u ''**\<newline>'' @ response r) @ u ''\<newline>\<newline>---\<newline>\<newline>''
              @ join separator (map format_response rs))
   \<and> join separator (map format_response [r]) = u ''**'' @ filename r @ u ''**\<newline>'' @ response r
   \<and> join separator (map format_response
        [\<lparr>filename = u ''x.pdf'', response = u ''R1''\<rparr>, \<lparr>filename = u ''y.pdf'', response = u ''R2''\<rparr>])
       = u ''**x.pdf**\<newline>R1\<newline>\<newline>---\<newline>\<newline>**y.pdf**\<newline>R2''\<close>
proof -
  have whole: "fst (get_gemini_response E p fd ud h w) = join separator (map format_response (yielded E p fd ud h))"
    if "yielded E p fd ud h \<noteq> []"
    using that by (simp add: get_gemini_response_text)
  have step: "join separator (map format_response (r # rs))
          = (u ''**'' @ filename r @ u ''**\<newline>'' @ response r) @ u ''\<newline>\<newline>---\<newline>\<newline>''
              @ join separator (map format_response rs)" if "rs \<noteq> []"
    using that by (simp add: join_Cons format_response_def separator_def)
  have one: "join separator (map format_response [r]) = u ''**'' @ filename r @ u ''**\<newline>'' @ response r"
    by (simp add: format_response_def)
  have ex: \<open>join separator (map format_response
        [\<lparr>filename = u ''x.pdf'', response = u ''R1''\<rparr>, \<lparr>filename = u ''y.pdf'', response = u ''R2''\<rparr>])
       = u ''**x.pdf**\<newline>R1\<newline>\<newline>---\<newline>\<newline>**y.pdf**\<newline>R2''\<close>
    by (simp add: format_response_def separator_def u_def)
  from whole step one ex show ?thesis by blast
qed

theorem rendering_in_source_order_witness:
  \<open>yielded two_answers (u ''q'')
      (Some [\<lparr>name = u ''x.pdf'', getvalue = []\<rparr>, \<lparr>name = u ''y.pdf'', getvalue = []\<rparr>]) None None
     = [\<lparr>filename = u ''x.pdf'', response = u ''R1''\<rparr>, \<lparr>filename = u ''y.pdf'', response = u ''R2''\<rparr>]
   \<and> fst (get_gemini_response two_answers (u ''q'')
      (Some [\<lparr>name = u ''x.pdf'', getvalue = []\<rparr>, \<lparr>name = u ''y.pdf'', getvalue = []\<rparr>]) None None world0)
     = u ''**x.pdf**\<newline>R1\<newline>\<newline>---\<newline>\<newline>**y.pdf**\<newline>R2''\<close>
proof -
  have y: \<open>yielded two_answers (u ''q'')
      (Some [\<lparr>name = u ''x.pdf'', getvalue = []\<rparr>, \<lparr>name = u ''y.pdf'', getvalue = []\<rparr>]) None None
     = [\<lparr>filename = u ''x.pdf'', response = u ''R1''\<rparr>, \<lparr>filename = u ''y.pdf'', response = u ''R2''\<rparr>]\<close>
    by (simp add: yielded_def docs_of_def valid_urls_def batch_entries_def entry_list_def reply_def
        two_answers_def quiet_def u_def)
  from y rendering_in_source_order [of two_answers "u ''q''"
      "Some [\<lparr>name = u ''x.pdf'', getvalue = []\<rparr>, \<lparr>name = u ''y.pdf'', getvalue = []\<rparr>]" None None world0]
  show ?thesis by (simp add: format_response_def separator_def u_def)
qed

subsection \<open>The URLs that are downloaded\<close>












subsection \<open>Validator\<close>

lemma scheme_char_plain: "scheme_char c \<Longrightarrow> plain_char c \<and> c \<noteq> 58"
  by (auto simp add: scheme_char_def plain_char_def is_alpha_def is_digit_def)

lemma split_scheme_ok:
  assumes "sch \<noteq> []" "is_alpha (hd sch)" "list_all scheme_char sch"
  shows "split_scheme (sch @ 58 # rest) = (map lower_ascii sch, rest)"
proof -
  have "\<forall>c \<in> set sch. c \<noteq> 58"
    using assms(3) scheme_char_plain by (auto simp add: list_all_iff)
  then have "takeWhile (\<lambda>c. c \<noteq> 58) (sch @ 58 # rest) = sch"
    by (simp add: takeWhile_append2)
  then show ?thesis
    using assms by (simp add: split_scheme_def)
qed

lemma split_netloc_ok:
  assumes "list_all host_char host"
  shows "split_netloc (47 # 47 # host @ 47 # rest) = host"
proof -
  have "\<forall>c \<in> set host. c \<noteq> 47 \<and> c \<noteq> 63 \<and> c \<noteq> 35"
    using assms by (auto simp add: list_all_iff host_char_def)
  then have "takeWhile (\<lambda>c. c \<noteq> 47 \<and> c \<noteq> 63 \<and> c \<noteq> 35) (host @ 47 # rest) = host"
    by (simp add: takeWhile_append2)
  then show ?thesis
    by (simp add: split_netloc_def)
qed

lemma u_sep: \<open>u ''://'' = [58, 47, 47]\<close> \<open>u ''/'' = [47]\<close>
  by (simp_all add: u_def)

lemma well_formed_valid:
  assumes "sch \<noteq> []" "is_alpha (hd sch)" "list_all scheme_char sch"
    and "host \<noteq> []" "list_all host_char host" "list_all plain_char rest"
  shows \<open>is_valid_url quiet (sch @ u ''://'' @ host @ u ''/'' @ rest)\<close>
proof -
  have plain: "list_all plain_char (sch @ [58, 47, 47] @ host @ [47] @ rest)"
    using assms scheme_char_plain
    by (auto simp add: list_all_iff host_char_def plain_char_def)
  have sp: "split_scheme (sch @ [58, 47, 47] @ host @ [47] @ rest)
              = (map lower_ascii sch, 47 # 47 # host @ 47 # rest)"
    using split_scheme_ok [OF assms(1-3), of "47 # 47 # host @ 47 # rest"] by simp
  have "urlparse_ascii (sch @ [58, 47, 47] @ host @ [47] @ rest)
          = Inr \<lparr>scheme = map lower_ascii sch, netloc = host\<rparr>"
    using plain sp split_netloc_ok [OF assms(5), of rest]
    by (simp add: urlparse_ascii_def)
  then show ?thesis
    using assms(1,4) by (simp add: is_valid_url_def quiet_def u_sep)
qed

lemma no_colon_no_scheme: "58 \<notin> set s \<Longrightarrow> fst (split_scheme s) = []"
proof -
  assume "58 \<notin> set s"
  then have tw: "takeWhile (\<lambda>c. c \<noteq> 58) s = s"
    by (auto simp add: takeWhile_eq_all_conv)
  show ?thesis
    unfolding split_scheme_def Let_def tw by simp
qed

lemma no_colon_invalid: "58 \<notin> set s \<Longrightarrow> \<not> is_valid_url quiet s"
  using no_colon_no_scheme [of s]
  by (simp add: is_valid_url_def quiet_def urlparse_ascii_def split_beta)

lemma split_scheme_rest: "suffix (snd (split_scheme s)) s"
  by (simp add: split_scheme_def Let_def suffix_drop)

lemma no_slashes_no_netloc:
  assumes "\<not> sublist [47, 47] s"
  shows "split_netloc (snd (split_scheme s)) = []"
proof (rule ccontr)
  assume "split_netloc (snd (split_scheme s)) \<noteq> []"
  then have "take 2 (snd (split_scheme s)) = [47, 47]"
    by (simp add: split_netloc_def split: if_splits)
  then have "prefix [47, 47] (snd (split_scheme s))"
    by (metis take_is_prefix)
  then have "sublist [47, 47] (snd (split_scheme s))"
    by (rule prefix_imp_sublist)
  then have "sublist [47, 47] s"
    using split_scheme_rest [of s] by (meson sublist_order.order.trans suffix_imp_sublist)
  with assms show False by simp
qed

lemma no_slashes_invalid: "\<not> sublist [47, 47] s \<Longrightarrow> \<not> is_valid_url quiet s"
  using no_slashes_no_netloc [of s]
  by (simp add: is_valid_url_def quiet_def urlparse_ascii_def split_beta)

text \<open>
  C6. \<open>is_valid_url\<close> holds exactly when the URL parses and both the scheme and the
  network location of the parse are non-empty; it is false when the parser raises and
  when either component is empty. With the reference parser, on its fragment: a string
  without a colon (no scheme) or without \<open>//\<close> (no host) is invalid, and every string
  \<open>scheme://host/rest\<close> with a well-formed scheme and a non-empty host is valid.
\<close>

theorem is_valid_url_iff:
  \<open>(is_valid_url E s \<longleftrightarrow> (\<exists>r. urlparse E s = Inr r \<and> scheme r \<noteq> [] \<and> netloc r \<noteq> []))
   \<and> (isl (urlparse E s) \<longrightarrow> \<not> is_valid_url E s)
   \<and> (\<forall>r. urlparse E s = Inr r \<and> (scheme r = [] \<or> netloc r = []) \<longrightarrow> \<not> is_valid_url E s)
   \<and> (list_all plain_char s \<and> (58 \<notin> set s \<or> \<not> sublist [47, 47] s) \<longrightarrow> \<not> is_valid_url quiet s)
   \<and> (sch \<noteq> [] \<and> is_alpha (hd sch) \<and> list_all scheme_char sch
        \<and> host \<noteq> [] \<and> list_all host_char host \<and> list_all plain_char rest
        \<longrightarrow> is_valid_url quiet (sch @ u ''://'' @ host @ u ''/'' @ rest))\<close>
proof -
  have iff: "is_valid_url E s \<longleftrightarrow> (\<exists>r. urlparse E s = Inr r \<and> scheme r \<noteq> [] \<and> netloc r \<noteq> [])"
    by (auto simp add: is_valid_url_def split: sum.splits)
  have err: "\<not> is_valid_url E s" if "isl (urlparse E s)"
    using that by (auto simp add: is_valid_url_def split: sum.splits)
  have lacking: "\<forall>r. urlparse E s = Inr r \<and> (scheme r = [] \<or> netloc r = []) \<longrightarrow> \<not> is_valid_url E s"
    by (auto simp add: is_valid_url_def)
  from iff err lacking no_colon_invalid no_slashes_invalid well_formed_valid show ?thesis
    by blast
qed

theorem is_valid_url_iff_witness:
  \<open>is_valid_url quiet (u ''https'' @ u ''://'' @ u ''example.com'' @ u ''/'' @ u ''pliego.pdf'')
   \<and> \<not> is_valid_url quiet (u ''example.com/pliego.pdf'')
   \<and> \<not> is_valid_url quiet (u ''https:/pliego.pdf'')\<close>
proof -
  have a: \<open>u ''https'' \<noteq> [] \<and> is_alpha (hd (u ''https'')) \<and> list_all scheme_char (u ''https'')
      \<and> u ''example.com'' \<noteq> [] \<and> list_all host_char (u ''example.com'')
      \<and> list_all plain_char (u ''pliego.pdf'')\<close>
    by (simp add: u_def is_alpha_def scheme_char_def host_char_def plain_char_def is_digit_def)
  have b: \<open>list_all plain_char (u ''example.com/pliego.pdf'') \<and> 58 \<notin> set (u ''example.com/pliego.pdf'')\<close>
    by (simp add: u_def plain_char_def)
  have c: \<open>urlparse quiet (u ''https:/pliego.pdf'') = Inr \<lparr>scheme = u ''https'', netloc = []\<rparr>\<close>
    by (simp add: quiet_def ev_url u_def)
  note t1 = is_valid_url_iff [where E = quiet and s = "u ''example.com/pliego.pdf''"
      and sch = "u ''https''" and host = "u ''example.com''" and rest = "u ''pliego.pdf''"]
  note t2 = is_valid_url_iff [where E = quiet and s = "u ''https:/pliego.pdf''"]
  have w1: \<open>is_valid_url quiet (u ''https'' @ u ''://'' @ u ''example.com'' @ u ''/'' @ u ''pliego.pdf'')\<close>
    using t1 a by blast
  have w2: \<open>\<not> is_valid_url quiet (u ''example.com/pliego.pdf'')\<close>
    using t1 b by blast
  have w3: \<open>\<not> is_valid_url quiet (u ''https:/pliego.pdf'')\<close>
    using t2 c by auto
  from w1 w2 w3 show ?thesis by blast
qed

subsection \<open>JSON Extractor\<close>

lemma prefix_within: "prefix pat (xs @ ys) \<Longrightarrow> length pat \<le> length xs \<Longrightarrow> prefix pat xs"
  by (auto simp add: prefix_append)

lemma not_prefix_if_absent:
  assumes "pat \<noteq> []" and "\<not> sublist pat ((c # xs) @ butlast pat)"
  shows "\<not> prefix pat (c # xs @ pat @ rest)"
proof
  assume p: "prefix pat (c # xs @ pat @ rest)"
  have split: "c # xs @ pat @ rest = ((c # xs) @ butlast pat) @ ([last pat] @ rest)"
    using assms(1) by simp
  have "length pat \<le> length ((c # xs) @ butlast pat)"
    by simp
  with p split have "prefix pat ((c # xs) @ butlast pat)"
    using prefix_within by metis
  then have "sublist pat ((c # xs) @ butlast pat)"
    by (rule prefix_imp_sublist)
  with assms(2) show False by simp
qed

lemma fence_close_ne: "fence_close \<noteq> []"
  by (simp add: fence_close_def u_def)

lemma fence_open_ne: "fence_open \<noteq> []"
  by (simp add: fence_open_def u_def)

lemma lazy_group_Some:
  "lazy_group cs = Some g \<Longrightarrow> \<exists>post. cs = g @ fence_close @ post"
proof (induction cs arbitrary: g)
  case Nil
  then show ?case by simp
next
  case (Cons c cs)
  show ?case
  proof (cases "prefix fence_close (c # cs)")
    case True
    with Cons.prems have "g = []" by simp
    with True show ?thesis by (auto simp add: prefix_def)
  next
    case False
    with Cons.prems obtain g' where g': "lazy_group cs = Some g'" "g = c # g'"
      by auto
    from Cons.IH [OF g'(1)] g'(2) show ?thesis by auto
  qed
qed

lemma lazy_group_None:
  "lazy_group cs = None \<Longrightarrow> \<not> sublist fence_close cs"
proof (induction cs)
  case Nil
  then show ?case by (simp add: fence_close_ne)
next
  case (Cons c cs)
  then have np: "\<not> prefix fence_close (c # cs)" and rec: "lazy_group cs = None"
    by (auto split: if_splits)
  from Cons.IH [OF rec] np show ?case
    by (simp add: sublist_Cons_right)
qed

lemma lazy_group_first:
  assumes "\<not> sublist fence_close (g @ butlast fence_close)"
  shows "lazy_group (g @ fence_close @ post) = Some g"
  using assms
proof (induction g)
  case Nil
  obtain c cs where cs: "fence_close @ post = c # cs"
    using fence_close_ne by (cases "fence_close @ post") auto
  have "prefix fence_close (c # cs)"
    using cs by (metis prefixI)
  then show ?case
    using cs by simp
next
  case (Cons c g)
  have np: "\<not> prefix fence_close (c # g @ fence_close @ post)"
    using not_prefix_if_absent [OF fence_close_ne Cons.prems] .
  have "\<not> sublist fence_close (g @ butlast fence_close)"
    using Cons.prems by (simp add: sublist_Cons_right)
  then have "lazy_group (g @ fence_close @ post) = Some g"
    by (rule Cons.IH)
  with np show ?case by simp
qed

lemma match_here_open: "match_here (fence_open @ rest) = lazy_group rest"
  by (simp add: match_here_def)

lemma re_search_Some:
  "re_search t = Some g \<Longrightarrow> \<exists>pre post. t = pre @ fence_open @ g @ fence_close @ post"
proof (induction t)
  case Nil
  then show ?case by simp
next
  case (Cons c cs)
  show ?case
  proof (cases "match_here (c # cs)")
    case None
    with Cons.prems have "re_search cs = Some g" by simp
    from Cons.IH [OF this] obtain pre post where "cs = pre @ fence_open @ g @ fence_close @ post"
      by blast
    then have "c # cs = (c # pre) @ fence_open @ g @ fence_close @ post"
      by simp
    then show ?thesis by blast
  next
    case (Some g')
    with Cons.prems have gg: "g' = g" by simp
    from Some have p: "prefix fence_open (c # cs)"
      and l: "lazy_group (drop (length fence_open) (c # cs)) = Some g'"
      by (auto simp add: match_here_def split: if_splits)
    from lazy_group_Some [OF l] obtain post
      where d: "drop (length fence_open) (c # cs) = g' @ fence_close @ post"
      by blast
    from p have "c # cs = fence_open @ drop (length fence_open) (c # cs)"
      by (auto simp add: prefix_def)
    with d gg have "c # cs = [] @ fence_open @ g @ fence_close @ post"
      by simp
    then show ?thesis by blast
  qed
qed

lemma re_search_None:
  "re_search t = None \<Longrightarrow> t \<noteq> pre @ fence_open @ g @ fence_close @ post"
proof (induction t arbitrary: pre)
  case Nil
  then show ?case by (simp add: fence_open_ne)
next
  case (Cons c cs)
  from Cons.prems have m: "match_here (c # cs) = None" and r: "re_search cs = None"
    by (auto split: option.splits)
  show ?case
  proof (cases pre)
    case Nil
    show ?thesis
    proof
      assume eq: "c # cs = pre @ fence_open @ g @ fence_close @ post"
      with Nil m have "lazy_group (g @ fence_close @ post) = None"
        using match_here_open [of "g @ fence_close @ post"] by simp
      from lazy_group_None [OF this] show False
        by (simp add: sublist_append)
    qed
  next
    case (Cons d pre')
    show ?thesis
    proof
      assume eq: "c # cs = pre @ fence_open @ g @ fence_close @ post"
      with Cons have "cs = pre' @ fence_open @ g @ fence_close @ post"
        by simp
      with Cons.IH [OF r, of pre'] show False by simp
    qed
  qed
qed

lemma re_search_first:
  assumes "\<not> sublist fence_open (pre @ butlast fence_open)"
    and "\<not> sublist fence_close (g @ butlast fence_close)"
  shows "re_search (pre @ fence_open @ g @ fence_close @ post) = Some g"
  using assms(1)
proof (induction pre)
  case Nil
  obtain c cs where cs: "fence_open @ g @ fence_close @ post = c # cs"
    using fence_open_ne by (cases "fence_open @ g @ fence_close @ post") auto
  have "match_here (c # cs) = Some g"
    using match_here_open [of "g @ fence_close @ post"] lazy_group_first [OF assms(2), of post] cs
    by simp
  then show ?case
    using cs by simp
next
  case (Cons c pre)
  have "\<not> prefix fence_open (c # pre @ fence_open @ g @ fence_close @ post)"
    using not_prefix_if_absent [OF fence_open_ne Cons.prems] .
  then have m: "match_here (c # pre @ fence_open @ g @ fence_close @ post) = None"
    by (simp add: match_here_def)
  have "\<not> sublist fence_open (pre @ butlast fence_open)"
    using Cons.prems by (simp add: sublist_Cons_right)
  then have "re_search (pre @ fence_open @ g @ fence_close @ post) = Some g"
    by (rule Cons.IH)
  with m show ?case by simp
qed

lemma re_search_shorter: "re_search t = Some g \<Longrightarrow> length g < length t"
  using re_search_Some [of t g] fence_open_ne by auto

lemma butlast_prefix_whole:
  assumes "pat \<noteq> []"
  shows "prefix (xs @ butlast pat) (xs @ pat @ rest)"
proof -
  have "xs @ pat @ rest = (xs @ butlast pat) @ ([last pat] @ rest)"
    using assms by simp
  then show ?thesis
    by (metis prefixI)
qed

lemma butlast_not_sublist: "pat \<noteq> [] \<Longrightarrow> \<not> sublist pat (butlast pat)"
  using sublist_length_le [of pat "butlast pat"] by (cases pat) auto

lemma lazy_group_shortest:
  "lazy_group cs = Some g \<Longrightarrow> \<not> sublist fence_close (g @ butlast fence_close)"
proof (induction cs arbitrary: g)
  case Nil
  then show ?case by simp
next
  case (Cons c cs)
  show ?case
  proof (cases "prefix fence_close (c # cs)")
    case True
    with Cons.prems have "g = []" by simp
    then show ?thesis
      using butlast_not_sublist [OF fence_close_ne] by simp
  next
    case False
    with Cons.prems obtain g' where g': "lazy_group cs = Some g'" "g = c # g'"
      by auto
    from lazy_group_Some [OF g'(1)] obtain post where cs: "cs = g' @ fence_close @ post"
      by blast
    have "\<not> prefix fence_close (c # g' @ butlast fence_close)"
    proof
      assume "prefix fence_close (c # g' @ butlast fence_close)"
      moreover have "prefix ((c # g') @ butlast fence_close) ((c # g') @ fence_close @ post)"
        by (rule butlast_prefix_whole [OF fence_close_ne])
      ultimately have "prefix fence_close (c # cs)"
        using cs by (metis append_Cons prefix_order.trans)
      with False show False by simp
    qed
    moreover have "\<not> sublist fence_close (g' @ butlast fence_close)"
      by (rule Cons.IH [OF g'(1)])
    ultimately show ?thesis
      using g'(2) by (simp add: sublist_Cons_right)
  qed
qed

lemma re_search_Some_first:
  "re_search t = Some g \<Longrightarrow>
     \<exists>pre post. t = pre @ fence_open @ g @ fence_close @ post \<and> first_block pre g"
proof (induction t)
  case Nil
  then show ?case by simp
next
  case (Cons c cs)
  show ?case
  proof (cases "match_here (c # cs)")
    case None
    with Cons.prems have r: "re_search cs = Some g" by simp
    from Cons.IH [OF r] obtain pre post
      where cs: "cs = pre @ fence_open @ g @ fence_close @ post" and fb: "first_block pre g"
      by blast
    have np: "\<not> prefix fence_open (c # cs)"
    proof
      assume p: "prefix fence_open (c # cs)"
      with None have "lazy_group (drop (length fence_open) (c # cs)) = None"
        by (simp add: match_here_def)
      then have no: "\<not> sublist fence_close (drop (length fence_open) (c # cs))"
        by (rule lazy_group_None)
      from p obtain rest where rest: "c # cs = fence_open @ rest"
        by (auto simp add: prefix_def)
      then have d: "drop (length fence_open) (c # cs) = rest"
        by simp
      have "length (c # pre @ fence_open @ g) \<ge> length fence_open"
        by simp
      have "c # cs = (c # pre @ fence_open @ g) @ fence_close @ post"
        using cs by simp
      then have "drop (length fence_open) (c # cs)
          = drop (length fence_open) (c # pre @ fence_open @ g) @ fence_close @ post"
        by (simp del: append_Cons)
      then have "sublist fence_close (drop (length fence_open) (c # cs))"
        by (metis sublist_appendI)
      with no show False by simp
    qed
    have "\<not> prefix fence_open (c # pre @ butlast fence_open)"
    proof
      assume "prefix fence_open (c # pre @ butlast fence_open)"
      moreover have "prefix ((c # pre) @ butlast fence_open) ((c # pre) @ fence_open @ (g @ fence_close @ post))"
        by (rule butlast_prefix_whole [OF fence_open_ne])
      ultimately have "prefix fence_open (c # cs)"
        using cs by (metis append_Cons prefix_order.trans)
      with np show False by simp
    qed
    then have "first_block (c # pre) g"
      using fb by (simp add: first_block_def sublist_Cons_right)
    moreover have "c # cs = (c # pre) @ fence_open @ g @ fence_close @ post"
      using cs by simp
    ultimately show ?thesis by blast
  next
    case (Some g')
    with Cons.prems have gg: "g' = g" by simp
    from Some have p: "prefix fence_open (c # cs)"
      and l: "lazy_group (drop (length fence_open) (c # cs)) = Some g'"
      by (auto simp add: match_here_def split: if_splits)
    from lazy_group_Some [OF l] obtain post
      where d: "drop (length fence_open) (c # cs) = g' @ fence_close @ post"
      by blast
    from p have "c # cs = fence_open @ drop (length fence_open) (c # cs)"
      by (auto simp add: prefix_def)
    with d gg have eq: "c # cs = [] @ fence_open @ g @ fence_close @ post"
      by simp
    have "first_block [] g"
      using lazy_group_shortest [OF l] gg butlast_not_sublist [OF fence_open_ne]
      by (simp add: first_block_def)
    with eq show ?thesis by blast
  qed
qed


lemma try_loads_fst: "fst (try_loads loads s w) = decoded (loads s)"
  by (simp add: try_loads_def decoded_def Let_def split: sum.splits)

lemma try_loads_calls: "loads_calls (snd (try_loads loads s w)) = loads_calls w @ [s]"
  by (simp add: try_loads_def Let_def split: sum.splits)

lemma extract_fst:
  "fst (extract_json_from_markdown loads t w)
     = decoded (loads (case re_search t of Some g \<Rightarrow> g | None \<Rightarrow> t))"
  by (simp add: extract_json_from_markdown_def try_loads_fst split: option.splits)

lemma extract_calls:
  "loads_calls (snd (extract_json_from_markdown loads t w))
     = loads_calls w @ [case re_search t of Some g \<Rightarrow> g | None \<Rightarrow> t]"
  by (simp add: extract_json_from_markdown_def try_loads_calls split: option.splits)

lemma re_search_None_iff: "re_search t = None \<longleftrightarrow> \<not> has_json_block t"
proof
  assume "re_search t = None"
  then show "\<not> has_json_block t"
    using re_search_None [of t] by (auto simp add: has_json_block_def)
next
  assume n: "\<not> has_json_block t"
  show "re_search t = None"
  proof (cases "re_search t")
    case None
    then show ?thesis .
  next
    case (Some g)
    from re_search_Some [OF this] n show ?thesis
      by (auto simp add: has_json_block_def)
  qed
qed








lemma loads_mal: \<open>json_loads (u ''{mal}'') = Inl decode_error\<close>
  by (simp add: json_loads_def skip_ws_def json_ws_def max_depth_def u_def)



lemma ex_mal_first: \<open>first_block [] (u ''{mal}'')\<close>
  by (simp add: first_block_def fence_open_def fence_close_def u_def sublist_Cons_right)

lemma ex_list_bare: \<open>\<not> has_json_block (u ''[1, 2]'')\<close>
  unfolding re_search_None_iff [symmetric]
  by (simp add: match_here_def fence_open_def u_def)


lemma ex_two_text:
  \<open>u ''```json\<newline>{mal}\<newline>```\<newline>```json\<newline>{"a": "1"}\<newline>```''
     = [] @ fence_open @ u ''{mal}'' @ fence_close @ u ''\<newline>```json\<newline>{"a": "1"}\<newline>```''\<close>
  by (simp add: fence_open_def fence_close_def u_def)


text \<open>
  C10. When the text has a fenced block labelled \<open>json\<close>, the one text passed to
  \<open>json.loads\<close> is the interior of the first such block, whatever follows it, and
  never the whole text; if that interior does not parse, the result is \<open>None\<close>. The
  whole text is passed to \<open>json.loads\<close> exactly when there is no such block.
\<close>

theorem first_block_only:
  \<open>(first_block pre g \<longrightarrow>
      loads_calls (snd (extract_json_from_markdown loads (pre @ fence_open @ g @ fence_close @ post) w))
        = loads_calls w @ [g]
      \<and> (\<forall>e. loads g = Inl e \<and> cls e = JSONDecodeError \<longrightarrow>
            fst (extract_json_from_markdown loads (pre @ fence_open @ g @ fence_close @ post) w)
              = Inr None))
   \<and> (has_json_block t \<longrightarrow>
        (\<exists>pre g post. t = pre @ fence_open @ g @ fence_close @ post \<and> first_block pre g
           \<and> loads_calls (snd (extract_json_from_markdown loads t w)) = loads_calls w @ [g])
        \<and> loads_calls (snd (extract_json_from_markdown loads t w)) \<noteq> loads_calls w @ [t])
   \<and> (\<not> has_json_block t \<longrightarrow>
        loads_calls (snd (extract_json_from_markdown loads t w)) = loads_calls w @ [t])\<close>
proof -
  have calls: "loads_calls (snd (extract_json_from_markdown loads (pre @ fence_open @ g @ fence_close @ post) w))
        = loads_calls w @ [g]" if "first_block pre g"
    using that re_search_first [of pre g post] by (simp add: extract_calls first_block_def)
  have none: "fst (extract_json_from_markdown loads (pre @ fence_open @ g @ fence_close @ post) w) = Inr None"
    if "first_block pre g" "loads g = Inl e" "cls e = JSONDecodeError" for e
    using that re_search_first [of pre g post] by (simp add: extract_fst first_block_def decoded_def)
  have some: "(\<exists>pre g post. t = pre @ fence_open @ g @ fence_close @ post \<and> first_block pre g
           \<and> loads_calls (snd (extract_json_from_markdown loads t w)) = loads_calls w @ [g])
        \<and> loads_calls (snd (extract_json_from_markdown loads t w)) \<noteq> loads_calls w @ [t]"
    if "has_json_block t"
  proof -
    from that obtain g where g: "re_search t = Some g"
      using re_search_None_iff [of t] by (cases "re_search t") auto
    from re_search_shorter [OF g] have "g \<noteq> t" by auto
    with re_search_Some_first [OF g] g show ?thesis
      by (auto simp add: extract_calls)
  qed
  have whole: "loads_calls (snd (extract_json_from_markdown loads t w)) = loads_calls w @ [t]"
    if "\<not> has_json_block t"
    using that re_search_None_iff [of t] by (simp add: extract_calls)
  from calls none some whole show ?thesis
    by blast
qed

theorem first_block_only_witness:
  \<open>extract_json_from_markdown json_loads
      (u ''```json\<newline>{mal}\<newline>```\<newline>```json\<newline>{"a": "1"}\<newline>```'') world0
     = (Inr None, world0\<lparr>loads_calls := [u ''{mal}''], errors := [ErrorParsingJSON decode_error]\<rparr>)
   \<and> loads_calls (snd (extract_json_from_markdown json_loads (u ''[1, 2]'') world0)) = [u ''[1, 2]'']\<close>
proof -
  note t1 = first_block_only [where loads = json_loads and pre = "[]" and g = "u ''{mal}''"
      and post = "u ''\<newline>```json\<newline>{\"a\": \"1\"}\<newline>```''" and t = "u ''[1, 2]''" and w = world0]
  have c1: \<open>loads_calls (snd (extract_json_from_markdown json_loads
      (u ''```json\<newline>{mal}\<newline>```\<newline>```json\<newline>{"a": "1"}\<newline>```'') world0)) = [u ''{mal}'']\<close>
    using t1 ex_mal_first unfolding ex_two_text by (simp add: world0_def)
  have r1: \<open>fst (extract_json_from_markdown json_loads
      (u ''```json\<newline>{mal}\<newline>```\<newline>```json\<newline>{"a": "1"}\<newline>```'') world0) = Inr None\<close>
    using t1 ex_mal_first loads_mal unfolding ex_two_text by (simp add: decode_error_def)
  have s1: \<open>re_search (u ''```json\<newline>{mal}\<newline>```\<newline>```json\<newline>{"a": "1"}\<newline>```'') = Some (u ''{mal}'')\<close>
    using re_search_first [of "[]" "u ''{mal}''"] ex_mal_first unfolding ex_two_text
    by (simp add: first_block_def)
  have full: \<open>extract_json_from_markdown json_loads
      (u ''```json\<newline>{mal}\<newline>```\<newline>```json\<newline>{"a": "1"}\<newline>```'') world0
     = (Inr None, world0\<lparr>loads_calls := [u ''{mal}''], errors := [ErrorParsingJSON decode_error]\<rparr>)\<close>
    using c1 r1 s1 loads_mal
    by (simp add: extract_json_from_markdown_def try_loads_def Let_def decode_error_def world0_def)
  have c2: \<open>loads_calls (snd (extract_json_from_markdown json_loads (u ''[1, 2]'') world0)) = [u ''[1, 2]'']\<close>
    using t1 ex_list_bare by (simp add: world0_def)
  from full c2 show ?thesis by blast
qed

subsection \<open>Predefined questions\<close>

lemma template_split:
  "resumen_de_licitacion_json
     = template_intro @ fence_open @ template_json @ fence_close @ template_outro"
  by (simp add: resumen_de_licitacion_json_def template_intro_def template_json_def
      template_outro_def fence_open_def fence_close_def u_def)

lemma template_first: "first_block template_intro template_json"
  by (simp add: first_block_def template_intro_def template_json_def fence_open_def fence_close_def
      u_def sublist_Cons_right)

lemma template_loads:
  \<open>json_loads template_json = Inr (JObject [
      (u ''porcentaje_recomendacion'',
       JString (u ''X%'')),
      (u ''porcentaje_recomendacion_short_explain'',
       JString (u ''Breve explicaci'' @ [243] @
         u ''n de 1-2 frases sobre el porcentaje de recomendaci'' @ [243] @ u ''n'')),
      (u ''objeto_contrato'',
       JString (u ''Descripci'' @ [243] @ u ''n detallada del objeto del contrato'')),
      (u ''presupuesto'',
       JString (u ''Presupuesto Base de Licitaci'' @ [243] @ u ''n (sin IVA)'')),
      (u ''solvencia_requerida'',
       JString (u ''Niveles de solvencia t'' @ [233] @ u ''cnica y econ'' @ [243] @
         u ''mica requeridos'')),
      (u ''habilitaciones_necesarias'',
       JString (u ''Lista de habilitaciones, certificaciones o requisitos necesarios'')),
      (u ''garantias'',
       JString (u ''Detalles sobre las garant'' @ [237] @
         u ''as requeridas (provisionales, definitivas, etc.)'')),
      (u ''ecuaciones'',
       JString (u ''F'' @ [243] @ u ''rmulas o criterios de valoraci'' @ [243] @
         u ''n si los hay'')),
      (u ''otras_condiciones'',
       JString (u ''Otras condiciones relevantes de la licitaci'' @ [243] @ u ''n'')),
      (u ''recomendacion'',
       JString (u ''An'' @ [225] @ u ''lisis detallado y recomendaci'' @ [243] @
         u ''n sobre la conveniencia de participar''))])\<close>
  by (simp add: json_loads_def skip_ws_def json_ws_def max_depth_def template_json_def u_def)

lemma template_decoded:
  \<open>fst (extract_json_from_markdown json_loads resumen_de_licitacion_json w) = Inr (Some (JObject [
      (u ''porcentaje_recomendacion'',
       JString (u ''X%'')),
      (u ''porcentaje_recomendacion_short_explain'',
       JString (u ''Breve explicaci'' @ [243] @
         u ''n de 1-2 frases sobre el porcentaje de recomendaci'' @ [243] @ u ''n'')),
      (u ''objeto_contrato'',
       JString (u ''Descripci'' @ [243] @ u ''n detallada del objeto del contrato'')),
      (u ''presupuesto'',
       JString (u ''Presupuesto Base de Licitaci'' @ [243] @ u ''n (sin IVA)'')),
      (u ''solvencia_requerida'',
       JString (u ''Niveles de solvencia t'' @ [233] @ u ''cnica y econ'' @ [243] @
         u ''mica requeridos'')),
      (u ''habilitaciones_necesarias'',
       JString (u ''Lista de habilitaciones, certificaciones o requisitos necesarios'')),
      (u ''garantias'',
       JString (u ''Detalles sobre las garant'' @ [237] @
         u ''as requeridas (provisionales, definitivas, etc.)'')),
      (u ''ecuaciones'',
       JString (u ''F'' @ [243] @ u ''rmulas o criterios de valoraci'' @ [243] @
         u ''n si los hay'')),
      (u ''otras_condiciones'',
       JString (u ''Otras condiciones relevantes de la licitaci'' @ [243] @ u ''n'')),
      (u ''recomendacion'',
       JString (u ''An'' @ [225] @ u ''lisis detallado y recomendaci'' @ [243] @
         u ''n sobre la conveniencia de participar''))]))\<close>
  using re_search_first [of template_intro template_json template_outro] template_first
  by (simp add: extract_fst template_split [symmetric] first_block_def template_loads decoded_def)

lemma template_sentinel:
  \<open>template_outro =
       (u ''\<newline>\<newline>Por favor, completa cada campo con la '' @
       u ''informaci'' @ [243] @ u ''n relevante extra'' @ [237] @
       u ''da del documento. Si alg'' @ [250] @ u ''n dato no est'' @ [225] @
       u '' disponible, ind'' @ [237] @ u ''calo como '') @ u ''No especificado'' @
       (u ''. El campo `porcentaje_recomendacion` debe ser un porcentaje (ej: '' @
       u ''"75%") y `porcentaje_recomendacion_short_explain` debe ser una '' @
       u ''explicaci'' @ [243] @
       u ''n concisa de 1-2 frases. Todos los valores de este JSON ser'' @ [225] @
       u ''n strings que siguen el formato markdown.'')\<close>
  by (simp add: template_outro_def u_def)

lemma question_keys_eq:
  \<open>question_keys =
       [
        u ''Resumen del documento'',
        u ''Tema principal'',
        u ''Hallazgos principales'',
        u ''Argumentos clave'',
        u ''Fechas importantes'',
        u ''Metodolog'' @ [237] @ u ''a'',
        u ''Recomendaciones'',
        u ''Limitaciones'',
        u ''Datos y estad'' @ [237] @ u ''sticas'',
        u ''Estructura del documento'',
        u ''Resumen de licitaci'' @ [243] @ u ''n (JSON)''
       ]\<close>
  by (simp add: question_keys_def PREDEFINED_QUESTIONS_def u_def)

text \<open>
  C8, as stated, fails: the table has eleven keys besides the empty default, not ten,
  and the JSON template of the structured summary names ten fields, not nine.
\<close>

theorem predefined_questions_not_ten:
  \<open>length question_keys \<noteq> 10
   \<and> length (json_keys (fst (extract_json_from_markdown json_loads resumen_de_licitacion_json world0))) \<noteq> 9\<close>
  by (simp add: question_keys_eq template_decoded json_keys_def)

text \<open>
  C8, amended. The table of predefined questions has the empty default option and
  exactly eleven keys, pairwise distinct, each mapped to its fixed body; the options
  offered are the empty option followed by these keys. The body of the structured
  summary contains a fenced JSON template that names ten fields, all with string
  values, and after it the sentinel \<open>No especificado\<close>.
\<close>

theorem predefined_questions_table:
  \<open>question_keys =
       [
        u ''Resumen del documento'',
        u ''Tema principal'',
        u ''Hallazgos principales'',
        u ''Argumentos clave'',
        u ''Fechas importantes'',
        u ''Metodolog'' @ [237] @ u ''a'',
        u ''Recomendaciones'',
        u ''Limitaciones'',
        u ''Datos y estad'' @ [237] @ u ''sticas'',
        u ''Estructura del documento'',
        u ''Resumen de licitaci'' @ [243] @ u ''n (JSON)''
       ]
   \<and> length question_keys = 11
   \<and> distinct (map fst PREDEFINED_QUESTIONS)
   \<and> QUESTION_OPTIONS = [] # question_keys
   \<and> map (map_of PREDEFINED_QUESTIONS) question_keys
        = map Some [resumen_del_documento, tema_principal, hallazgos_principales, argumentos_clave, fechas_importantes, metodologia, recomendaciones, limitaciones, datos_y_estadisticas, estructura_del_documento, resumen_de_licitacion_json]
   \<and> map_of PREDEFINED_QUESTIONS [] = Some []
   \<and> map length (map snd PREDEFINED_QUESTIONS) = [0, 214, 233, 258, 239, 236, 251, 250, 235, 220, 220, 1294]
   \<and> json_keys (fst (extract_json_from_markdown json_loads resumen_de_licitacion_json w)) =
       [
        u ''porcentaje_recomendacion'',
        u ''porcentaje_recomendacion_short_explain'',
        u ''objeto_contrato'',
        u ''presupuesto'',
        u ''solvencia_requerida'',
        u ''habilitaciones_necesarias'',
        u ''garantias'',
        u ''ecuaciones'',
        u ''otras_condiciones'',
        u ''recomendacion''
       ]
   \<and> (\<exists>kvs. fst (extract_json_from_markdown json_loads resumen_de_licitacion_json w)
                = Inr (Some (JObject kvs))
         \<and> length kvs = 10 \<and> list_all (\<lambda>kv. case snd kv of JString s \<Rightarrow> True | _ \<Rightarrow> False) kvs)
   \<and> sublist (u ''No especificado'') resumen_de_licitacion_json\<close>
proof -
  have distinct_keys: "distinct (map fst PREDEFINED_QUESTIONS)"
    by (simp add: PREDEFINED_QUESTIONS_def u_def)
  have options: "QUESTION_OPTIONS = [] # question_keys"
    by (simp add: QUESTION_OPTIONS_def question_keys_def PREDEFINED_QUESTIONS_def u_def)
  have bodies: "map (map_of PREDEFINED_QUESTIONS) question_keys
        = map Some [resumen_del_documento, tema_principal, hallazgos_principales, argumentos_clave, fechas_importantes, metodologia, recomendaciones, limitaciones, datos_y_estadisticas, estructura_del_documento, resumen_de_licitacion_json]"
    unfolding question_keys_eq by (simp add: PREDEFINED_QUESTIONS_def u_def)
  have empty_key: "map_of PREDEFINED_QUESTIONS [] = Some []"
    by (simp add: PREDEFINED_QUESTIONS_def)
  have lens: "map length (map snd PREDEFINED_QUESTIONS) = [0, 214, 233, 258, 239, 236, 251, 250, 235, 220, 220, 1294]"
    by (simp add: PREDEFINED_QUESTIONS_def resumen_del_documento_def tema_principal_def
        hallazgos_principales_def argumentos_clave_def fechas_importantes_def metodologia_def
        recomendaciones_def limitaciones_def datos_y_estadisticas_def
        estructura_del_documento_def resumen_de_licitacion_json_def u_def)
  have fields: \<open>json_keys (fst (extract_json_from_markdown json_loads resumen_de_licitacion_json w)) =
       [
        u ''porcentaje_recomendacion'',
        u ''porcentaje_recomendacion_short_explain'',
        u ''objeto_contrato'',
        u ''presupuesto'',
        u ''solvencia_requerida'',
        u ''habilitaciones_necesarias'',
        u ''garantias'',
        u ''ecuaciones'',
        u ''otras_condiciones'',
        u ''recomendacion''
       ]\<close>
    by (simp add: template_decoded json_keys_def)
  have strings: "\<exists>kvs. fst (extract_json_from_markdown json_loads resumen_de_licitacion_json w)
                = Inr (Some (JObject kvs))
         \<and> length kvs = 10 \<and> list_all (\<lambda>kv. case snd kv of JString s \<Rightarrow> True | _ \<Rightarrow> False) kvs"
    by (simp add: template_decoded)
  have s1: "sublist (u ''No especificado'') template_outro"
    by (subst template_sentinel) (rule sublist_appendI)
  have s2: "sublist template_outro resumen_de_licitacion_json"
    using sublist_appendI [of template_outro
        "template_intro @ fence_open @ template_json @ fence_close" "[]"]
    by (simp add: template_split)
  from s1 s2 have sentinel: "sublist (u ''No especificado'') resumen_de_licitacion_json"
    by (rule sublist_order.order.trans)
  have len: "length question_keys = 11"
    by (simp add: question_keys_eq)
  show ?thesis
    by (intro conjI)
       (rule question_keys_eq len distinct_keys options bodies empty_key lens fields strings
          sentinel)+
qed

end
